theory Spec2Isabelle
  imports Complex_Main "HOL-Library.AList"
begin

section \<open>Python values, exceptions and library objects\<close>

text \<open>
  The service of \<^verbatim>\<open>api/index.py\<close> is modelled function by function. A JSON value of a
  request is a \<open>pyval\<close>. A Python float is an IEEE double: \<open>PFloat r\<close> stands for the
  double nearest to the real \<open>r\<close> (which is \<open>r\<close> itself when \<open>r\<close> is a double), so a decimal
  literal of the source or of a request is written as it is, and doubles are compared by
  their values. The one float computation of the source, the product of line 149, is
  modelled with the rounding of the doubles in the section on floats; NaN and the infinities are outside the
  model. An exception is a value
  \<open>Err kind text\<close>, where \<open>text\<close> is what \<^verbatim>\<open>str(e)\<close> gives; a function that may raise
  returns \<open>error + 'a\<close> with \<open>Inl\<close> for the exception.
\<close>

datatype pyval =
    PNone
  | PBool bool
  | PInt int
  | PFloat real
  | PStr string
  | PList "pyval list"
  | PDict "(string \<times> pyval) list"

datatype exn_kind =
  Exception | KeyError | TypeError | IndexError | OverflowError | LibraryError

datatype error = Err (kind: exn_kind) (message: string)

text \<open>
  What \<^verbatim>\<open>model.predict(X)[0]\<close> yields: the regressor gives a float, the classifier a
  class label, which the endpoint uses as an integer index.
\<close>

datatype prediction = IntLabel int | FloatValue real

text \<open>
  The objects unpickled by joblib come from scikit-learn, not from this repository; each
  is taken as the functions the service calls on it. A call may raise.
\<close>

record model =
  predict :: "real list \<Rightarrow> error + prediction"
  predict_proba :: "real list \<Rightarrow> error + real list"

record scaler =
  scaler_transform :: "pyval list \<Rightarrow> error + real list"

record label_encoder =
  classes :: "string list"
  encoder_transform :: "string \<Rightarrow> error + int"

text \<open>
  Behaviour of the Python runtime and of pandas that the service relies on and that is
  not written in the repository: \<^verbatim>\<open>repr\<close> of a value, and \<^verbatim>\<open>Series.astype(int)\<close> on
  the single cell of a one-row frame.
\<close>

record pylib =
  py_repr :: "pyval \<Rightarrow> string"
  astype_int :: "pyval \<Rightarrow> error + pyval"

section \<open>The process-wide artifact maps\<close>

text \<open>
  The four module-level dicts. A Python dict keeps insertion order and \<^verbatim>\<open>d[k] = v\<close>
  overwrites in place or appends, which is \<^const>\<open>AList.update\<close> on an association list.
\<close>

record store =
  models :: "(string \<times> model) list"
  scalers :: "(string \<times> scaler) list"
  encoders :: "(string \<times> (string \<times> label_encoder) list) list"
  feature_names :: "(string \<times> string list) list"

text \<open>
  The part of the file system the loader reads: whether \<^verbatim>\<open>MODEL_DIR\<close> exists, what
  listing it gives, which files exist under it, what \<^verbatim>\<open>joblib.load\<close> gives for a file
  (each file holding an object of the kind its name says) and what opening and parsing
  \<^verbatim>\<open>feature_names.json\<close> gives.
\<close>

record filesystem =
  model_dir_exists :: bool
  listdir_model_dir :: "error + string list"
  path_exists :: "string \<Rightarrow> bool"
  joblib_load_model :: "string \<Rightarrow> error + model"
  joblib_load_scaler :: "string \<Rightarrow> error + scaler"
  joblib_load_encoders :: "string \<Rightarrow> error + (string \<times> label_encoder) list"
  json_load_feature_names :: "error + (string \<times> string list) list"

definition expected :: "string list" where
  "expected =
    [''best_regression_model_linear.pkl'',
     ''best_classification_model_logistic.pkl'',
     ''regression_scaler.pkl'',
     ''classification_scaler.pkl'',
     ''regression_encoders.pkl'',
     ''classification_encoders.pkl'']"

text \<open>
  \<^verbatim>\<open>load_models_and_processors\<close>: the whole body is inside \<^verbatim>\<open>try\<close>, and the handler
  returns \<^verbatim>\<open>False\<close>, so the function never raises. The listing of the directory is
  only printed, but it is evaluated first and may raise. The six stores into the dicts
  happen one after the other; an exception in the middle keeps the earlier ones.
\<close>

definition load_models_and_processors :: "filesystem \<Rightarrow> store \<Rightarrow> bool \<times> store" where
  "load_models_and_processors fs st =
    (case (if model_dir_exists fs then listdir_model_dir fs else Inr []) of
       Inl e \<Rightarrow> (False, st)
     | Inr listing \<Rightarrow>
        (let missing = filter (\<lambda>f. \<not> path_exists fs f) expected in
         if missing \<noteq> [] then (False, st)
         else
          (case joblib_load_model fs ''best_regression_model_linear.pkl'' of
             Inl e \<Rightarrow> (False, st)
           | Inr m1 \<Rightarrow>
          let st1 = st\<lparr>models := AList.update ''regression'' m1 (models st)\<rparr> in
          (case joblib_load_model fs ''best_classification_model_logistic.pkl'' of
             Inl e \<Rightarrow> (False, st1)
           | Inr m2 \<Rightarrow>
          let st2 = st1\<lparr>models := AList.update ''classification'' m2 (models st1)\<rparr> in
          (case joblib_load_scaler fs ''regression_scaler.pkl'' of
             Inl e \<Rightarrow> (False, st2)
           | Inr s1 \<Rightarrow>
          let st3 = st2\<lparr>scalers := AList.update ''regression'' s1 (scalers st2)\<rparr> in
          (case joblib_load_scaler fs ''classification_scaler.pkl'' of
             Inl e \<Rightarrow> (False, st3)
           | Inr s2 \<Rightarrow>
          let st4 = st3\<lparr>scalers := AList.update ''classification'' s2 (scalers st3)\<rparr> in
          (case joblib_load_encoders fs ''regression_encoders.pkl'' of
             Inl e \<Rightarrow> (False, st4)
           | Inr e1 \<Rightarrow>
          let st5 = st4\<lparr>encoders := AList.update ''regression'' e1 (encoders st4)\<rparr> in
          (case joblib_load_encoders fs ''classification_encoders.pkl'' of
             Inl e \<Rightarrow> (False, st5)
           | Inr e2 \<Rightarrow>
          let st6 = st5\<lparr>encoders := AList.update ''classification'' e2 (encoders st5)\<rparr> in
          (case json_load_feature_names fs of
             Inl e \<Rightarrow> (False, st6)
           | Inr names \<Rightarrow> (True, st6\<lparr>feature_names := names\<rparr>))))))))))"

section \<open>Responses\<close>

record health_report =
  status :: string
  models_loaded :: bool
  available_models :: "string list"
  encoders_loaded :: bool
  available_encoders :: "string list"
  scalers_loaded :: bool
  available_scalers :: "string list"
  feature_names_loaded :: bool
  available_feature_sets :: "string list"

record prediction_result =
  success :: bool
  climate_risk_score :: real
  flood_risk_category :: string
  risk_probabilities :: "(string \<times> real) list"
  risk_level :: string

datatype body =
    Failure string bool
  | Prediction prediction_result
  | Health health_report

record response =
  status_code :: nat
  body :: body

text \<open>
  \<^verbatim>\<open>health_check\<close> reads the four dicts and writes none; the store is returned as it
  was received. \<^verbatim>\<open>jsonify\<close> without a status answers 200.
\<close>

definition health_check :: "store \<Rightarrow> store \<times> response" where
  "health_check st =
    (st,
     \<lparr>status_code = 200,
      body = Health
       \<lparr>status = (if models st \<noteq> [] \<and> encoders st \<noteq> [] \<and> scalers st \<noteq> []
                      \<and> feature_names st \<noteq> []
                   then ''healthy'' else ''unhealthy''),
        models_loaded = (models st \<noteq> []),
        available_models = map fst (models st),
        encoders_loaded = (encoders st \<noteq> []),
        available_encoders = map fst (encoders st),
        scalers_loaded = (scalers st \<noteq> []),
        available_scalers = map fst (scalers st),
        feature_names_loaded = (feature_names st \<noteq> []),
        available_feature_sets = map fst (feature_names st)\<rparr>\<rparr>)"

section \<open>Strings as Python prints them\<close>

definition quote :: string where
  "quote = [CHR 0x27]"

text \<open>
  \<^verbatim>\<open>repr\<close> of a str whose characters are printable ASCII other than the single quote
  and the backslash is the string between single quotes; every field and file name
  written in the source is of that kind. Any other string is left to the runtime.
\<close>

definition plain_char :: "char \<Rightarrow> bool" where
  "plain_char c = (32 \<le> (of_char c :: nat) \<and> (of_char c :: nat) \<le> 126
                     \<and> c \<noteq> CHR 0x27 \<and> c \<noteq> CHR 0x5C)"

definition repr_str :: "pylib \<Rightarrow> string \<Rightarrow> string" where
  "repr_str lib s =
     (if list_all plain_char s then quote @ s @ quote else py_repr lib (PStr s))"

fun join :: "string \<Rightarrow> string list \<Rightarrow> string" where
  "join sep [] = []"
| "join sep [x] = x"
| "join sep (x # y # ys) = x @ sep @ join sep (y # ys)"

text \<open>The text of a list of strings inside an f-string, as in \<^verbatim>\<open>f'{missing}'\<close>.\<close>

definition repr_str_list :: "pylib \<Rightarrow> string list \<Rightarrow> string" where
  "repr_str_list lib xs = ''['' @ join '', '' (map (repr_str lib) xs) @ '']''"

fun show_nat :: "nat \<Rightarrow> string" where
  "show_nat n =
     (if n < 10 then [''0123456789'' ! n]
      else show_nat (n div 10) @ [''0123456789'' ! (n mod 10)])"

declare show_nat.simps [simp del]

definition show_int :: "int \<Rightarrow> string" where
  "show_int i = (if i < 0 then ''-'' @ show_nat (nat (- i)) else show_nat (nat i))"

text \<open>\<^verbatim>\<open>str(x)\<close> of a cell.\<close>

definition py_str :: "pylib \<Rightarrow> pyval \<Rightarrow> string" where
  "py_str lib x =
     (case x of
        PStr s \<Rightarrow> s
      | PNone \<Rightarrow> ''None''
      | PBool b \<Rightarrow> (if b then ''True'' else ''False'')
      | PInt i \<Rightarrow> show_int i
      | _ \<Rightarrow> py_repr lib x)"

section \<open>Indexing and lookup\<close>

text \<open>
  \<^verbatim>\<open>xs[i]\<close> on a Python list and on a one-dimensional numpy array: a negative index
  counts from the end, an index out of range raises \<^verbatim>\<open>IndexError\<close>.
\<close>

definition list_index :: "'a list \<Rightarrow> int \<Rightarrow> error + 'a" where
  "list_index xs i =
     (let n = int (length xs); j = (if i < 0 then i + n else i) in
      if 0 \<le> j \<and> j < n then Inr (xs ! nat j)
      else Inl (Err IndexError ''list index out of range''))"

definition array_index :: "'a list \<Rightarrow> int \<Rightarrow> error + 'a" where
  "array_index xs i =
     (let n = int (length xs); j = (if i < 0 then i + n else i) in
      if 0 \<le> j \<and> j < n then Inr (xs ! nat j)
      else Inl (Err IndexError
             (''index '' @ show_int i @ '' is out of bounds for axis 0 with size ''
              @ show_nat (length xs))))"

text \<open>\<^verbatim>\<open>d[k]\<close> on a dict: \<^verbatim>\<open>KeyError\<close>, whose text is the \<^verbatim>\<open>repr\<close> of the key.\<close>

definition dict_get :: "pylib \<Rightarrow> (string \<times> 'a) list \<Rightarrow> string \<Rightarrow> error + 'a" where
  "dict_get lib d k =
     (case map_of d k of
        None \<Rightarrow> Inl (Err KeyError (repr_str lib k))
      | Some v \<Rightarrow> Inr v)"

section \<open>Floats\<close>

text \<open>
  A double is \<open>m * 2 ^ e\<close> with an integer \<open>m\<close> of magnitude below \<open>2 ^ 53\<close> and
  \<open>- 1074 \<le> e\<close>. \<open>pow2 e\<close> is \<open>2 ^ e\<close> for an integer exponent.
\<close>

definition pow2 :: "int \<Rightarrow> real" where
  "pow2 e = (if 0 \<le> e then 2 ^ nat e else 1 / 2 ^ nat (- e))"

text \<open>
  The exponent of the last place of the doubles around a magnitude \<open>a\<close>: the least
  \<open>e\<close> from \<open>e0\<close> on with \<open>a < 2 ^ (e + 53)\<close>. Started at \<open>- 1074\<close> it is the exponent
  of the subnormal doubles for a small \<open>a\<close>.
\<close>

function ulp_exponent :: "real \<Rightarrow> int \<Rightarrow> int" where
  "ulp_exponent a e = (if a < pow2 (e + 53) then e else ulp_exponent a (e + 1))"
  by pat_completeness auto
termination
proof (relation "measure (\<lambda>(a, e). nat (\<lceil>a\<rceil> - e - 52))")
  show "wf (measure (\<lambda>(a, e). nat (\<lceil>a\<rceil> - e - 52)))" by simp
next
  fix a :: real and e :: int
  assume "\<not> a < pow2 (e + 53)"
  then have le: "pow2 (e + 53) \<le> a" by simp
  have "real_of_int (e + 53) < pow2 (e + 53)"
  proof (cases "0 \<le> e + 53")
    case True
    have "real (nat (e + 53)) < 2 ^ nat (e + 53)" by (rule of_nat_less_two_power)
    with True show ?thesis by (simp add: pow2_def)
  next
    case False
    then have "real_of_int (e + 53) < 0" by simp
    moreover have "0 < pow2 (e + 53)" by (simp add: pow2_def)
    ultimately show ?thesis by linarith
  qed
  with le have "real_of_int (e + 53) < a" by linarith
  then have "e + 53 < \<lceil>a\<rceil>" by (simp add: less_ceiling_iff)
  then show "((a, e + 1), (a, e)) \<in> measure (\<lambda>(a, e). nat (\<lceil>a\<rceil> - e - 52))"
    by simp
qed

declare ulp_exponent.simps [simp del]

text \<open>Rounding to the nearest integer, a tie going to the even one.\<close>

definition round_half_even :: "real \<Rightarrow> int" where
  "round_half_even q =
     (let n = \<lfloor>q\<rfloor>; r = q - of_int n in
      if r < 1 / 2 then n else if 1 / 2 < r then n + 1
      else if even n then n else n + 1)"

text \<open>
  The double nearest to a real, ties to even, with gradual underflow. The result is not
  bounded above: a caller that can leave the range of the doubles checks it.
\<close>

definition round_double :: "real \<Rightarrow> real" where
  "round_double x =
     (let e = ulp_exponent \<bar>x\<bar> (- 1074) in
      sgn x * of_int (round_half_even (\<bar>x\<bar> / pow2 e)) * pow2 e)"

text \<open>
  The conversion of a Python int to a double, as the product of an int and a float does
  it: correctly rounded, and \<^verbatim>\<open>OverflowError\<close> when the rounded value is \<open>2 ^ 1024\<close> or
  more in magnitude.
\<close>

definition int_to_float :: "int \<Rightarrow> error + real" where
  "int_to_float i =
     (let r = round_double (real_of_int i) in
      if pow2 1024 \<le> \<bar>r\<bar>
      then Inl (Err OverflowError ''int too large to convert to float'')
      else Inr r)"

section \<open>The request record, validation and defaults\<close>

text \<open>
  \<^verbatim>\<open>input_data = request.json or {}\<close> is a dict from field names to JSON values; a key
  may be present with the value \<^verbatim>\<open>None\<close>, which is \<open>Some PNone\<close> here.
\<close>

type_synonym site_record = "string \<rightharpoonup> pyval"

definition required :: "string list" where
  "required =
    [''Latitude'', ''Longitude'', ''Vegetation_Type'', ''Biodiversity_Index'',
     ''Protected_Area_Status'', ''Elevation_m'', ''Slope_Degree'', ''Soil_Type'',
     ''Air_Quality_Index'', ''Average_Temperature_C'', ''Tourist_Attractions'',
     ''Accessibility_Score'', ''Tourist_Capacity_Limit'']"

text \<open>
  \<^verbatim>\<open>x * 0.6\<close> for a JSON value \<open>x\<close>. An int is first converted to a double, which
  raises for an int out of range; a boolean is the int 0 or 1; every other kind of value
  raises \<^verbatim>\<open>TypeError\<close>. The product of the two doubles is rounded; since the double of
  \<^verbatim>\<open>0.6\<close> is below 1 the product cannot leave the range of the doubles.
\<close>

definition mul_float :: "pyval \<Rightarrow> error + pyval" where
  "mul_float x =
     (case x of
        PInt i \<Rightarrow>
          (case int_to_float i of
             Inl e \<Rightarrow> Inl e
           | Inr r \<Rightarrow> Inr (PFloat (round_double (r * round_double 0.6))))
      | PFloat r \<Rightarrow> Inr (PFloat (round_double (round_double r * round_double 0.6)))
      | PBool b \<Rightarrow> Inr (PFloat (round_double ((if b then 1 else 0) * round_double 0.6)))
      | PNone \<Rightarrow> Inl (Err TypeError
          (''unsupported operand type(s) for *: '' @ quote @ ''NoneType'' @ quote
           @ '' and '' @ quote @ ''float'' @ quote))
      | PDict d \<Rightarrow> Inl (Err TypeError
          (''unsupported operand type(s) for *: '' @ quote @ ''dict'' @ quote
           @ '' and '' @ quote @ ''float'' @ quote))
      | _ \<Rightarrow> Inl (Err TypeError
          (''can'' @ quote @ ''t multiply sequence by non-int of type ''
           @ quote @ ''float'' @ quote)))"

text \<open>
  The JSON values on which that product is defined: a float, a boolean, and an int whose
  magnitude is below \<open>2 ^ 1024 - 2 ^ 970\<close>, the first integer that no longer rounds to a
  double. \<open>number_value\<close> is the double such a value is multiplied as.
\<close>

definition is_number :: "pyval \<Rightarrow> bool" where
  "is_number x =
     (case x of PInt i \<Rightarrow> \<bar>i\<bar> < 2 ^ 1024 - 2 ^ 970 | PFloat r \<Rightarrow> True
              | PBool b \<Rightarrow> True | _ \<Rightarrow> False)"

definition number_value :: "pyval \<Rightarrow> real" where
  "number_value x =
     (case x of PInt i \<Rightarrow> round_double (real_of_int i) | PFloat r \<Rightarrow> round_double r
              | PBool b \<Rightarrow> (if b then 1 else 0) | _ \<Rightarrow> 0)"

text \<open>
  The \<^verbatim>\<open>defaults\<close> dict literal. Its values are computed before any of them is
  stored: \<^verbatim>\<open>input_data.get('Average_Temperature_C', 20.0)\<close> cannot raise,
  \<^verbatim>\<open>input_data['Tourist_Capacity_Limit']*0.6\<close> can.
\<close>

definition defaults :: "pylib \<Rightarrow> site_record \<Rightarrow> error + (string \<times> pyval) list" where
  "defaults lib input_data =
     (case input_data ''Tourist_Capacity_Limit'' of
        None \<Rightarrow> Inl (Err KeyError (repr_str lib ''Tourist_Capacity_Limit''))
      | Some limit \<Rightarrow>
         (case mul_float limit of
            Inl e \<Rightarrow> Inl e
          | Inr current \<Rightarrow>
             Inr [(''Country'', PStr ''USA''),
                  (''Flood_Risk_Index'', PFloat 0.3),
                  (''Drought_Risk_Index'', PFloat 0.3),
                  (''Temperature_C'',
                     (case input_data ''Average_Temperature_C'' of
                        None \<Rightarrow> PFloat 20.0 | Some t \<Rightarrow> t)),
                  (''Annual_Rainfall_mm'', PFloat 1000.0),
                  (''Soil_Erosion_Risk'', PFloat 0.2),
                  (''Current_Tourist_Count'', current),
                  (''Human_Activity_Index'', PFloat 0.4),
                  (''Conservation_Investment_USD'', PFloat 100000.0),
                  (''Climate_Risk_Score'', PFloat 0.4)]))"

text \<open>The loop \<^verbatim>\<open>for k,v in defaults.items(): input_data.setdefault(k,v)\<close>.\<close>

fun set_defaults :: "site_record \<Rightarrow> (string \<times> pyval) list \<Rightarrow> site_record" where
  "set_defaults d [] = d"
| "set_defaults d ((k, v) # kvs) =
     set_defaults (if d k = None then d(k \<mapsto> v) else d) kvs"

definition inject_defaults :: "pylib \<Rightarrow> site_record \<Rightarrow> error + site_record" where
  "inject_defaults lib input_data =
     (case defaults lib input_data of
        Inl e \<Rightarrow> Inl e
      | Inr ds \<Rightarrow> Inr (set_defaults input_data ds))"


section \<open>Preprocessing\<close>

text \<open>
  \<^verbatim>\<open>pd.DataFrame([data])\<close> is a frame of one row whose columns are the keys of the
  record, so the frame is the record itself and a column is a key.
\<close>

definition categorical :: "string list" where
  "categorical = [''Vegetation_Type'', ''Soil_Type'', ''Country'']"

text \<open>
  The lambda applied to the cell:
  \<^verbatim>\<open>encoder.transform([str(x)])[0] if str(x) in encoder.classes_ else 0\<close>.
\<close>

definition encode_value :: "pylib \<Rightarrow> label_encoder \<Rightarrow> pyval \<Rightarrow> error + pyval" where
  "encode_value lib encoder x =
     (if py_str lib x \<in> set (classes encoder)
      then (case encoder_transform encoder (py_str lib x) of
              Inl e \<Rightarrow> Inl e
            | Inr code \<Rightarrow> Inr (PInt code))
      else Inr (PInt 0))"

fun encode_categorical ::
  "pylib \<Rightarrow> (string \<times> label_encoder) list \<Rightarrow> string list \<Rightarrow> site_record
     \<Rightarrow> error + site_record" where
  "encode_categorical lib encs [] df = Inr df"
| "encode_categorical lib encs (feat # feats) df =
     (case (df feat, map_of encs feat) of
        (Some x, Some encoder) \<Rightarrow>
          (case encode_value lib encoder x of
             Inl e \<Rightarrow> Inl e
           | Inr code \<Rightarrow> encode_categorical lib encs feats (df(feat \<mapsto> code)))
      | _ \<Rightarrow> encode_categorical lib encs feats df)"

definition protected_to_int :: "pylib \<Rightarrow> site_record \<Rightarrow> error + site_record" where
  "protected_to_int lib df =
     (case df ''Protected_Area_Status'' of
        None \<Rightarrow> Inr df
      | Some x \<Rightarrow>
         (case astype_int lib x of
            Inl e \<Rightarrow> Inl e
          | Inr i \<Rightarrow> Inr (df(''Protected_Area_Status'' \<mapsto> i))))"

text \<open>The body of the \<^verbatim>\<open>try\<close> of \<^verbatim>\<open>preprocess_input_data\<close>.\<close>

definition preprocess_steps ::
  "pylib \<Rightarrow> store \<Rightarrow> site_record \<Rightarrow> string \<Rightarrow> error + real list" where
  "preprocess_steps lib st data task_type =
     (if models st = [] then Inl (Err Exception ''Models not loaded'')
      else
       (case (map_of (encoders st) task_type, map_of (scalers st) task_type,
              map_of (feature_names st) (task_type @ ''_features'')) of
          (Some encs, Some sc, Some cols) \<Rightarrow>
            (case encode_categorical lib encs categorical data of
               Inl e \<Rightarrow> Inl e
             | Inr df1 \<Rightarrow>
                (case protected_to_int lib df1 of
                   Inl e \<Rightarrow> Inl e
                 | Inr df2 \<Rightarrow>
                    (let missing = filter (\<lambda>c. df2 c = None) cols in
                     if missing \<noteq> []
                     then Inl (Err Exception
                            (''Missing input features: '' @ repr_str_list lib missing))
                     else scaler_transform sc (map (\<lambda>c. the (df2 c)) cols))))
        | _ \<Rightarrow>
            Inl (Err Exception
              (''Missing encoders/scalers/features for task ''
               @ quote @ task_type @ quote))))"

text \<open>
  \<^verbatim>\<open>except Exception as e: raise Exception(f"Error preprocessing data: {e}")\<close>.
\<close>

definition preprocess_input_data ::
  "pylib \<Rightarrow> store \<Rightarrow> site_record \<Rightarrow> string \<Rightarrow> error + real list" where
  "preprocess_input_data lib st data task_type =
     (case preprocess_steps lib st data task_type of
        Inl e \<Rightarrow> Inl (Err Exception (''Error preprocessing data: '' @ message e))
      | Inr x \<Rightarrow> Inr x)"

section \<open>The predict endpoint\<close>

definition cats :: "string list" where
  "cats = [''Low'', ''Medium'', ''High'']"

text \<open>\<^verbatim>\<open>flood_cat = cats[cls] if cls < len(cats) else 'Unknown'\<close>.\<close>

definition flood_category :: "prediction \<Rightarrow> error + string" where
  "flood_category cls =
     (case cls of
        IntLabel i \<Rightarrow>
          (if i < int (length cats) then list_index cats i else Inr ''Unknown'')
      | FloatValue r \<Rightarrow>
          (if r < real (length cats)
           then Inl (Err TypeError
                  ''list indices must be integers or slices, not numpy.float64'')
           else Inr ''Unknown''))"

text \<open>
  \<^verbatim>\<open>probs = {cats[i]: float(proba[i]) for i in range(len(cats))}\<close>: the key is
  evaluated before the value, and the pair is stored in the dict under construction.
\<close>

fun build_probs ::
  "real list \<Rightarrow> nat list \<Rightarrow> (string \<times> real) list \<Rightarrow> error + (string \<times> real) list" where
  "build_probs proba [] acc = Inr acc"
| "build_probs proba (i # rest) acc =
     (case list_index cats (int i) of
        Inl e \<Rightarrow> Inl e
      | Inr c \<Rightarrow>
         (case array_index proba (int i) of
            Inl e \<Rightarrow> Inl e
          | Inr p \<Rightarrow> build_probs proba rest (AList.update c p acc)))"

definition probability_map :: "real list \<Rightarrow> error + (string \<times> real) list" where
  "probability_map proba = build_probs proba [0..<length cats] []"

fun to_float :: "prediction \<Rightarrow> real" where
  "to_float (IntLabel i) = real_of_int i"
| "to_float (FloatValue r) = r"

text \<open>\<^verbatim>\<open>'Low' if score<0.33 else 'Medium' if score<0.67 else 'High'\<close>.\<close>

definition risk_level_label :: "prediction \<Rightarrow> string" where
  "risk_level_label score =
     (if to_float score < 0.33 then ''Low''
      else if to_float score < 0.67 then ''Medium'' else ''High'')"

text \<open>
  The body of the \<^verbatim>\<open>try\<close> of \<^verbatim>\<open>predict\<close> from the validation on. A missing field
  is answered with 400 from inside the \<^verbatim>\<open>try\<close>; an exception is answered with 500 by
  the handler below.
\<close>

definition predict_steps :: "pylib \<Rightarrow> store \<Rightarrow> site_record \<Rightarrow> error + response" where
  "predict_steps lib st input_data =
     (let missing = filter (\<lambda>f. input_data f = None) required in
      if missing \<noteq> []
      then Inr \<lparr>status_code = 400,
                body = Failure (''Missing fields: '' @ repr_str_list lib missing) False\<rparr>
      else
       (case inject_defaults lib input_data of
          Inl e \<Rightarrow> Inl e
        | Inr data \<Rightarrow>
       (case preprocess_input_data lib st data ''regression'' of
          Inl e \<Rightarrow> Inl e
        | Inr reg_X \<Rightarrow>
       (case preprocess_input_data lib st data ''classification'' of
          Inl e \<Rightarrow> Inl e
        | Inr cls_X \<Rightarrow>
       (case dict_get lib (models st) ''regression'' of
          Inl e \<Rightarrow> Inl e
        | Inr regressor \<Rightarrow>
       (case predict regressor reg_X of
          Inl e \<Rightarrow> Inl e
        | Inr score \<Rightarrow>
       (case dict_get lib (models st) ''classification'' of
          Inl e \<Rightarrow> Inl e
        | Inr classifier \<Rightarrow>
       (case predict classifier cls_X of
          Inl e \<Rightarrow> Inl e
        | Inr cls \<Rightarrow>
       (case predict_proba classifier cls_X of
          Inl e \<Rightarrow> Inl e
        | Inr proba \<Rightarrow>
       (case flood_category cls of
          Inl e \<Rightarrow> Inl e
        | Inr flood_cat \<Rightarrow>
       (case probability_map proba of
          Inl e \<Rightarrow> Inl e
        | Inr probs \<Rightarrow>
           Inr \<lparr>status_code = 200,
                body = Prediction
                  \<lparr>success = True,
                   climate_risk_score = to_float score,
                   flood_risk_category = flood_cat,
                   risk_probabilities = probs,
                   risk_level = risk_level_label score\<rparr>\<rparr>)))))))))))"

text \<open>
  \<^verbatim>\<open>predict\<close>: the lazy load when \<^verbatim>\<open>models\<close> is empty, the 500 answer when it is
  still empty, and the handler \<^verbatim>\<open>except Exception as e\<close> that answers 500 with
  \<^verbatim>\<open>str(e)\<close>. The record is the parsed request body.
\<close>

definition predict_endpoint ::
  "pylib \<Rightarrow> filesystem \<Rightarrow> store \<Rightarrow> site_record \<Rightarrow> store \<times> response" where
  "predict_endpoint lib fs st input_data =
     (let st1 = (if models st = [] then snd (load_models_and_processors fs st) else st) in
      if models st1 = []
      then (st1, \<lparr>status_code = 500, body = Failure ''Models not loaded'' False\<rparr>)
      else
       (case predict_steps lib st1 input_data of
          Inl e \<Rightarrow> (st1, \<lparr>status_code = 500, body = Failure (message e) False\<rparr>)
        | Inr r \<Rightarrow> (st1, r)))"

section \<open>Fixtures\<close>

text \<open>
  A small runtime, a file system and stores on which the definitions are evaluated:
  a two-column feature list per task, one encoder for \<^verbatim>\<open>Vegetation_Type\<close>, a scaler that
  passes numbers through, and models that answer constants.
\<close>

definition demo_lib :: pylib where
  "demo_lib =
     \<lparr>py_repr = (\<lambda>x. ''<repr>''),
      astype_int = (\<lambda>x. case x of
          PBool b \<Rightarrow> Inr (PInt (if b then 1 else 0))
        | PInt i \<Rightarrow> Inr (PInt i)
        | _ \<Rightarrow> Inl (Err TypeError ''cannot convert''))\<rparr>"

definition demo_encoder :: label_encoder where
  "demo_encoder =
     \<lparr>classes = [''Forest'', ''Grassland''],
      encoder_transform = (\<lambda>s. if s = ''Forest'' then Inr 0
                                else if s = ''Grassland'' then Inr 1
                                else Inl (Err LibraryError ''unseen label''))\<rparr>"

definition demo_scaler :: scaler where
  "demo_scaler =
     \<lparr>scaler_transform = (\<lambda>row. if list_all (\<lambda>x. case x of PInt i \<Rightarrow> True
                                                       | PFloat r \<Rightarrow> True | _ \<Rightarrow> False) row
         then Inr (map (\<lambda>x. case x of PInt i \<Rightarrow> real_of_int i | PFloat r \<Rightarrow> r | _ \<Rightarrow> 0) row)
         else Inl (Err LibraryError ''could not convert to float''))\<rparr>"

definition demo_regressor :: "real \<Rightarrow> model" where
  "demo_regressor score =
     \<lparr>predict = (\<lambda>X. Inr (FloatValue score)),
      predict_proba = (\<lambda>X. Inl (Err LibraryError ''no predict_proba''))\<rparr>"

definition demo_classifier :: "int \<Rightarrow> real list \<Rightarrow> model" where
  "demo_classifier cls proba =
     \<lparr>predict = (\<lambda>X. Inr (IntLabel cls)), predict_proba = (\<lambda>X. Inr proba)\<rparr>"

definition empty_store :: store where
  "empty_store = \<lparr>models = [], scalers = [], encoders = [], feature_names = []\<rparr>"

definition demo_store :: "real \<Rightarrow> int \<Rightarrow> real list \<Rightarrow> store" where
  "demo_store score cls proba =
     \<lparr>models = [(''regression'', demo_regressor score),
                (''classification'', demo_classifier cls proba)],
      scalers = [(''regression'', demo_scaler), (''classification'', demo_scaler)],
      encoders = [(''regression'', [(''Vegetation_Type'', demo_encoder)]),
                  (''classification'', [(''Vegetation_Type'', demo_encoder)])],
      feature_names = [(''regression_features'', [''Latitude'', ''Vegetation_Type'']),
                       (''classification_features'', [''Vegetation_Type'', ''Elevation_m''])]\<rparr>"

definition demo_fs :: "string \<Rightarrow> filesystem" where
  "demo_fs absent =
     \<lparr>model_dir_exists = True,
      listdir_model_dir = Inr (filter (\<lambda>f. f \<noteq> absent) expected),
      path_exists = (\<lambda>f. f \<in> set expected \<and> f \<noteq> absent),
      joblib_load_model = (\<lambda>f. Inr (demo_regressor 0.5)),
      joblib_load_scaler = (\<lambda>f. Inr demo_scaler),
      joblib_load_encoders = (\<lambda>f. Inr [(''Vegetation_Type'', demo_encoder)]),
      json_load_feature_names = Inr [(''regression_features'', [''Latitude''])]\<rparr>"

definition demo_fields :: "(string \<times> pyval) list" where
  "demo_fields =
     [(''Latitude'', PFloat 12.5), (''Longitude'', PFloat 77.25),
      (''Vegetation_Type'', PStr ''Forest''), (''Biodiversity_Index'', PFloat 0.8),
      (''Protected_Area_Status'', PBool True), (''Elevation_m'', PInt 900),
      (''Slope_Degree'', PFloat 4.5), (''Soil_Type'', PStr ''Loam''),
      (''Air_Quality_Index'', PInt 42), (''Average_Temperature_C'', PFloat 24.5),
      (''Tourist_Attractions'', PInt 7), (''Accessibility_Score'', PFloat 0.7),
      (''Tourist_Capacity_Limit'', PInt 500)]"

definition demo_record :: site_record where
  "demo_record = map_of demo_fields"

text \<open>
  Records derived from \<open>demo_record\<close>: two required fields removed, every required field
  present with the value \<^verbatim>\<open>null\<close>, the capacity limit sent as the JSON string
  \<^verbatim>\<open>"500"\<close>, and the capacity limit sent as the integer \<open>2 ^ 1024\<close>.
\<close>

definition partial_record :: site_record where
  "partial_record = demo_record(''Biodiversity_Index'' := None, ''Soil_Type'' := None)"

definition null_record :: site_record where
  "null_record = map_of (map (\<lambda>f. (f, PNone)) required)"



text \<open>The record \<open>demo_record\<close> after default injection.\<close>

definition demo_defaulted :: site_record where
  "demo_defaulted = map_of [(''Country'', PStr ''USA''),
          (''Flood_Risk_Index'', PFloat 0.3),
          (''Drought_Risk_Index'', PFloat 0.3),
          (''Temperature_C'', PFloat 24.5),
          (''Annual_Rainfall_mm'', PFloat 1000.0),
          (''Soil_Erosion_Risk'', PFloat 0.2),
          (''Current_Tourist_Count'', PFloat 300.0),
          (''Human_Activity_Index'', PFloat 0.4),
          (''Conservation_Investment_USD'', PFloat 100000.0),
          (''Climate_Risk_Score'', PFloat 0.4)] ++ demo_record"

text \<open>The defaulted record with a vegetation type the encoder has not seen.\<close>

definition tundra_record :: site_record where
  "tundra_record = demo_defaulted(''Vegetation_Type'' \<mapsto> PStr ''Tundra'')"

section \<open>Loading the artifacts\<close>

text \<open>
  Claim C3. Whenever at least one of the six expected artifact files is absent,
  \<^verbatim>\<open>load_models_and_processors\<close> returns \<^verbatim>\<open>False\<close> (it has no way to raise) and the
  four maps \<open>models\<close>, \<open>scalers\<close>, \<open>encoders\<close> and \<open>feature_names\<close> are exactly what they
  were before the call, whatever the rest of the file system holds.
\<close>

theorem load_aborts_on_missing_file:
  assumes "f \<in> set expected" and "\<not> path_exists fs f"
  shows "load_models_and_processors fs st = (False, st)"
proof -
  have "filter (\<lambda>f. \<not> path_exists fs f) expected \<noteq> []"
    using assms by (auto simp: filter_empty_conv)
  then show ?thesis
    unfolding load_models_and_processors_def by (simp split: sum.split)
qed

theorem load_aborts_on_missing_file_witness:
  "''regression_scaler.pkl'' \<in> set expected
   \<and> \<not> path_exists (demo_fs ''regression_scaler.pkl'') ''regression_scaler.pkl''
   \<and> load_models_and_processors (demo_fs ''regression_scaler.pkl'') (demo_store 0.5 1 [])
       = (False, demo_store 0.5 1 [])"
proof -
  have a: "''regression_scaler.pkl'' \<in> set expected"
    by (simp add: expected_def)
  have b: "\<not> path_exists (demo_fs ''regression_scaler.pkl'') ''regression_scaler.pkl''"
    by (simp add: demo_fs_def)
  from load_aborts_on_missing_file [OF a b] a b show ?thesis by blast
qed

section \<open>The health endpoint\<close>

text \<open>
  Claim C7. For every state of the four maps, \<^verbatim>\<open>health_check\<close> answers 200 with status
  \<^verbatim>\<open>healthy\<close> exactly when \<open>models\<close>, \<open>encoders\<close>, \<open>scalers\<close> and \<open>feature_names\<close> are all
  non-empty and \<^verbatim>\<open>unhealthy\<close> otherwise; each \<^verbatim>\<open>*_loaded\<close> flag is the non-emptiness
  of its map and each \<^verbatim>\<open>available_*\<close> list is the list of its keys; the store after
  the call is the store before it.
\<close>

theorem health_check_reports_store:
  "fst (health_check st) = st
   \<and> status_code (snd (health_check st)) = 200
   \<and> (\<exists>h. body (snd (health_check st)) = Health h
        \<and> (status h = ''healthy'' \<longleftrightarrow>
             models st \<noteq> [] \<and> encoders st \<noteq> [] \<and> scalers st \<noteq> [] \<and> feature_names st \<noteq> [])
        \<and> (status h = ''unhealthy'' \<longleftrightarrow>
             \<not> (models st \<noteq> [] \<and> encoders st \<noteq> [] \<and> scalers st \<noteq> []
                \<and> feature_names st \<noteq> []))
        \<and> models_loaded h = (models st \<noteq> [])
        \<and> available_models h = map fst (models st)
        \<and> encoders_loaded h = (encoders st \<noteq> [])
        \<and> available_encoders h = map fst (encoders st)
        \<and> scalers_loaded h = (scalers st \<noteq> [])
        \<and> available_scalers h = map fst (scalers st)
        \<and> feature_names_loaded h = (feature_names st \<noteq> [])
        \<and> available_feature_sets h = map fst (feature_names st))"
  by (simp add: health_check_def)

theorem health_check_reports_store_witness:
  "(\<exists>h. body (snd (health_check (demo_store 0.5 1 []))) = Health h
        \<and> status h = ''healthy''
        \<and> available_models h = [''regression'', ''classification''])
   \<and> (\<exists>h. body (snd (health_check empty_store)) = Health h
        \<and> status h = ''unhealthy'' \<and> \<not> models_loaded h \<and> available_models h = [])"
  using health_check_reports_store [of "demo_store 0.5 1 []"]
        health_check_reports_store [of empty_store]
  by (auto simp: demo_store_def empty_store_def)

section \<open>Required-field validation\<close>

lemma required_plain: "list_all (list_all plain_char) required"
  by (simp add: required_def plain_char_def)

lemma repr_str_plain: "list_all plain_char s \<Longrightarrow> repr_str lib s = quote @ s @ quote"
  by (simp add: repr_str_def)

lemma repr_str_list_plain:
  "list_all (list_all plain_char) xs \<Longrightarrow>
   repr_str_list lib xs = ''['' @ join '', '' (map (\<lambda>s. quote @ s @ quote) xs) @ '']''"
proof -
  assume "list_all (list_all plain_char) xs"
  then have "map (repr_str lib) xs = map (\<lambda>s. quote @ s @ quote) xs"
    by (intro map_cong refl) (simp add: list_all_iff repr_str_plain)
  then show ?thesis unfolding repr_str_list_def by (simp only:)
qed

lemma missing_plain:
  "list_all (list_all plain_char) (filter P required)"
  using required_plain by (auto simp: list_all_iff)

lemma predict_steps_missing:
  assumes "filter (\<lambda>f. d f = None) required \<noteq> []"
  shows "predict_steps lib st d =
     Inr \<lparr>status_code = 400,
          body = Failure (''Missing fields: ''
                   @ repr_str_list lib (filter (\<lambda>f. d f = None) required)) False\<rparr>"
  using assms by (simp add: predict_steps_def)

lemma predict_steps_complete:
  assumes "filter (\<lambda>f. d f = None) required = []"
      and "predict_steps lib st d = Inr r"
  shows "\<exists>data reg_X cls_X regressor classifier score cls proba flood_cat probs.
      inject_defaults lib d = Inr data
    \<and> preprocess_input_data lib st data ''regression'' = Inr reg_X
    \<and> preprocess_input_data lib st data ''classification'' = Inr cls_X
    \<and> map_of (models st) ''regression'' = Some regressor
    \<and> predict regressor reg_X = Inr score
    \<and> map_of (models st) ''classification'' = Some classifier
    \<and> predict classifier cls_X = Inr cls
    \<and> predict_proba classifier cls_X = Inr proba
    \<and> flood_category cls = Inr flood_cat
    \<and> probability_map proba = Inr probs
    \<and> r = \<lparr>status_code = 200,
            body = Prediction
              \<lparr>success = True,
               climate_risk_score = to_float score,
               flood_risk_category = flood_cat,
               risk_probabilities = probs,
               risk_level = risk_level_label score\<rparr>\<rparr>"
  using assms
  by (auto simp: predict_steps_def dict_get_def split: sum.splits option.splits)

lemma missing_nonempty_iff:
  "filter (\<lambda>f. d f = None) required \<noteq> [] \<longleftrightarrow> (\<exists>f\<in>set required. d f = None)"
  by (auto simp: filter_empty_conv)

text \<open>
  Claim C4. With the models loaded, a record from which at least one of the 13 required
  field names is absent is answered with HTTP 400, the success flag false and the error
  string \<^verbatim>\<open>Missing fields: [...]\<close>, where the list holds, in the order of \<open>required\<close>
  and each between single quotes, exactly the required names absent from the record;
  the other fields of the record play no part. The store is unchanged.
\<close>

theorem predict_rejects_missing_fields:
  assumes "models st \<noteq> []" and "f \<in> set required" and "input_data f = None"
  shows "predict_endpoint lib fs st input_data =
     (st, \<lparr>status_code = 400,
           body = Failure
             (''Missing fields: '' @ ''[''
              @ join '', '' (map (\<lambda>s. quote @ s @ quote)
                               (filter (\<lambda>f. input_data f = None) required))
              @ '']'') False\<rparr>)
   \<and> set (filter (\<lambda>f. input_data f = None) required)
       = {f \<in> set required. input_data f = None}"
proof -
  have ne: "filter (\<lambda>f. input_data f = None) required \<noteq> []"
    using assms(2,3) missing_nonempty_iff by blast
  have "repr_str_list lib (filter (\<lambda>f. input_data f = None) required)
        = ''['' @ join '', '' (map (\<lambda>s. quote @ s @ quote)
                               (filter (\<lambda>f. input_data f = None) required)) @ '']''"
    by (rule repr_str_list_plain) (rule missing_plain)
  with predict_steps_missing [OF ne, of lib st] assms(1) show ?thesis
    by (simp add: predict_endpoint_def)
qed

theorem predict_rejects_missing_fields_witness:
  "models (demo_store 0.5 1 []) \<noteq> []
   \<and> ''Soil_Type'' \<in> set required
   \<and> partial_record ''Soil_Type'' = None
   \<and> predict_endpoint demo_lib (demo_fs []) (demo_store 0.5 1 []) partial_record =
       (demo_store 0.5 1 [],
        \<lparr>status_code = 400,
         body = Failure (''Missing fields: ['' @ quote @ ''Biodiversity_Index'' @ quote
                          @ '', '' @ quote @ ''Soil_Type'' @ quote @ '']'') False\<rparr>)"
proof -
  have a: "models (demo_store 0.5 1 []) \<noteq> []" by (simp add: demo_store_def)
  have b: "''Soil_Type'' \<in> set required" by (simp add: required_def)
  have c: "partial_record ''Soil_Type'' = None" by (simp add: partial_record_def)
  have d: "filter (\<lambda>f. partial_record f = None) required
           = [''Biodiversity_Index'', ''Soil_Type'']"
    by (simp add: required_def partial_record_def demo_record_def demo_fields_def)
  from predict_rejects_missing_fields
         [where st = "demo_store 0.5 1 []" and f = "''Soil_Type''"
            and input_data = partial_record and lib = demo_lib and fs = "demo_fs []",
          OF a b c] a b c
  show ?thesis by (simp add: d)
qed

text \<open>
  Claim C10 says that the 400 answer is produced if and only if a required key is absent.
  The check \<^verbatim>\<open>if not models\<close> comes before the validation: with an empty store and a
  model file absent the lazy load fails, and a record that lacks two required keys is
  answered 500 \<^verbatim>\<open>Models not loaded\<close>, not 400.
\<close>

lemma demo_load_fails:
  "load_models_and_processors (demo_fs ''regression_scaler.pkl'') empty_store
     = (False, empty_store)"
  by (simp add: load_models_and_processors_def demo_fs_def expected_def)

theorem validation_counterexample:
  "''Soil_Type'' \<in> set required
   \<and> partial_record ''Soil_Type'' = None
   \<and> predict_endpoint demo_lib (demo_fs ''regression_scaler.pkl'') empty_store partial_record
       = (empty_store, \<lparr>status_code = 500, body = Failure ''Models not loaded'' False\<rparr>)"
proof -
  have a: "''Soil_Type'' \<in> set required" by (simp add: required_def)
  have b: "partial_record ''Soil_Type'' = None" by (simp add: partial_record_def)
  have c: "models empty_store = []" by (simp add: empty_store_def)
  show ?thesis
    using a b by (simp add: predict_endpoint_def c demo_load_fails)
qed

text \<open>
  Claim C10, as amended. The validation of \<^verbatim>\<open>predict\<close> looks at the keys of the record
  only. The answer is the HTTP 400 exactly when the models map is non-empty after the
  lazy load and some required key is absent; hence a record holding all 13 required keys
  is never answered 400, whatever the values are, \<^verbatim>\<open>null\<close> included, and two records
  with the same required keys present agree on being answered 400. When the models map
  is still empty after the lazy load the answer is 500 \<^verbatim>\<open>Models not loaded\<close> whatever
  the record.
\<close>

theorem validation_tests_key_presence_only:
  "(status_code (snd (predict_endpoint lib fs st input_data)) = 400
      \<longleftrightarrow> models (fst (predict_endpoint lib fs st input_data)) \<noteq> []
          \<and> (\<exists>f\<in>set required. input_data f = None))
   \<and> ((\<forall>f\<in>set required. (input_data f = None) = (other f = None)) \<longrightarrow>
        (status_code (snd (predict_endpoint lib fs st input_data)) = 400
           \<longleftrightarrow> status_code (snd (predict_endpoint lib fs st other)) = 400))
   \<and> (models (fst (predict_endpoint lib fs st input_data)) = [] \<longrightarrow>
        snd (predict_endpoint lib fs st input_data)
          = \<lparr>status_code = 500, body = Failure ''Models not loaded'' False\<rparr>)"
proof -
  define st1 where "st1 = (if models st = [] then snd (load_models_and_processors fs st) else st)"
  have fst_eq: "fst (predict_endpoint lib fs st d) = st1" for d
    by (simp add: predict_endpoint_def st1_def Let_def split: sum.splits)
  have main: "status_code (snd (predict_endpoint lib fs st d)) = 400
      \<longleftrightarrow> models st1 \<noteq> [] \<and> (\<exists>f\<in>set required. d f = None)" for d
  proof (cases "models st1 = []")
    case True
    then show ?thesis by (simp add: predict_endpoint_def st1_def Let_def)
  next
    case loaded: False
    show ?thesis
    proof (cases "filter (\<lambda>f. d f = None) required = []")
      case True
      then have no: "\<not> (\<exists>f\<in>set required. d f = None)"
        using missing_nonempty_iff [of d] by simp
      have "status_code (snd (predict_endpoint lib fs st d)) \<noteq> 400"
      proof (cases "predict_steps lib st1 d")
        case (Inl e)
        with loaded show ?thesis
          by (simp add: predict_endpoint_def st1_def Let_def)
      next
        case (Inr r)
        from predict_steps_complete [OF True Inr] have "status_code r = 200" by auto
        with loaded Inr show ?thesis
          by (simp add: predict_endpoint_def st1_def Let_def)
      qed
      with no show ?thesis by simp
    next
      case False
      then have yes: "\<exists>f\<in>set required. d f = None"
        using missing_nonempty_iff [of d] by simp
      from predict_steps_missing [OF False, of lib st1] loaded yes show ?thesis
        by (simp add: predict_endpoint_def st1_def Let_def)
    qed
  qed
  have empty: "snd (predict_endpoint lib fs st input_data)
          = \<lparr>status_code = 500, body = Failure ''Models not loaded'' False\<rparr>"
    if "models st1 = []"
    using that by (simp add: predict_endpoint_def st1_def Let_def)
  show ?thesis
    using main [of input_data] main [of other] empty by (auto simp: fst_eq)
qed

theorem validation_tests_key_presence_only_witness:
  "list_all (\<lambda>f. null_record f = Some PNone) required
   \<and> status_code (snd (predict_endpoint demo_lib (demo_fs []) (demo_store 0.5 1 []) null_record))
       \<noteq> 400
   \<and> status_code (snd (predict_endpoint demo_lib (demo_fs []) (demo_store 0.5 1 []) partial_record))
       = 400
   \<and> models (fst (predict_endpoint demo_lib (demo_fs ''regression_scaler.pkl'') empty_store
                      null_record)) = []
   \<and> status_code (snd (predict_endpoint demo_lib (demo_fs ''regression_scaler.pkl'') empty_store
                          null_record)) = 500"
proof -
  have a: "list_all (\<lambda>f. null_record f = Some PNone) required"
    by (simp add: null_record_def required_def)
  then have b: "\<not> (\<exists>f\<in>set required. null_record f = None)"
    by (auto simp: list_all_iff)
  have c: "\<exists>f\<in>set required. partial_record f = None"
    by (simp add: partial_record_def required_def)
  have d: "models (fst (predict_endpoint demo_lib (demo_fs []) (demo_store 0.5 1 []) partial_record)) \<noteq> []"
    by (simp add: predict_endpoint_def demo_store_def Let_def split: sum.splits)
  from validation_tests_key_presence_only
         [of demo_lib "demo_fs []" "demo_store 0.5 1 []" null_record null_record]
       validation_tests_key_presence_only
         [of demo_lib "demo_fs []" "demo_store 0.5 1 []" partial_record partial_record]
       a b c d
  have first: "status_code (snd (predict_endpoint demo_lib (demo_fs []) (demo_store 0.5 1 [])
                                  null_record)) \<noteq> 400"
    and second: "status_code (snd (predict_endpoint demo_lib (demo_fs []) (demo_store 0.5 1 [])
                                  partial_record)) = 400"
    by blast+
  have e: "models (fst (predict_endpoint demo_lib (demo_fs ''regression_scaler.pkl'') empty_store
                      null_record)) = []"
  proof -
    have "models empty_store = []" by (simp add: empty_store_def)
    then show ?thesis by (simp add: predict_endpoint_def demo_load_fails)
  qed
  from validation_tests_key_presence_only
         [of demo_lib "demo_fs ''regression_scaler.pkl''" empty_store null_record null_record] e
  have "snd (predict_endpoint demo_lib (demo_fs ''regression_scaler.pkl'') empty_store null_record)
          = \<lparr>status_code = 500, body = Failure ''Models not loaded'' False\<rparr>"
    by blast
  then have third: "status_code (snd (predict_endpoint demo_lib
      (demo_fs ''regression_scaler.pkl'') empty_store null_record)) = 500"
    by simp
  show ?thesis
    using a first second e third by blast
qed

section \<open>Rounding to a double\<close>

lemma pow2_powr: "pow2 e = 2 powr (of_int e)"
proof (cases "0 \<le> e")
  case True
  then have "(2::real) powr (of_int e) = 2 powr (of_nat (nat e))" by simp
  also have "\<dots> = 2 ^ nat e" by (rule powr_realpow) simp
  finally show ?thesis using True by (simp add: pow2_def)
next
  case False
  then have "(2::real) powr (of_int e) = 2 powr (- of_nat (nat (- e)))" by simp
  also have "\<dots> = 1 / 2 powr (of_nat (nat (- e)))" by (simp add: powr_minus divide_inverse)
  also have "\<dots> = 1 / 2 ^ nat (- e)" by (simp add: powr_realpow)
  finally show ?thesis using False by (simp add: pow2_def)
qed

lemma pow2_pos: "0 < pow2 e"
  by (simp add: pow2_powr)

lemma pow2_add: "pow2 (a + b) = pow2 a * pow2 b"
  by (simp add: pow2_powr powr_add)

lemma pow2_mono: "a \<le> b \<Longrightarrow> pow2 a \<le> pow2 b"
  by (simp add: pow2_powr)

lemma pow2_nat: "pow2 (int n) = 2 ^ n"
  by (simp add: pow2_def)

lemma pow2_gt: "real_of_int n < pow2 n"
proof (cases "0 \<le> n")
  case True
  have "real (nat n) < 2 ^ nat n" by (rule of_nat_less_two_power)
  with True show ?thesis by (simp add: pow2_def)
next
  case False
  then have "real_of_int n < 0" by simp
  with pow2_pos [of n] show ?thesis by linarith
qed

lemma ulp_exponent_spec:
  "e0 \<le> ulp_exponent a e0 \<and> a < pow2 (ulp_exponent a e0 + 53)
   \<and> (e0 < ulp_exponent a e0 \<longrightarrow> pow2 (ulp_exponent a e0 + 52) \<le> a)"
proof (induction a e0 rule: ulp_exponent.induct)
  case (1 a e)
  show ?case
  proof (cases "a < pow2 (e + 53)")
    case True
    then show ?thesis by (simp add: ulp_exponent.simps [of a e])
  next
    case False
    then have eq: "ulp_exponent a e = ulp_exponent a (e + 1)"
      by (simp add: ulp_exponent.simps [of a e])
    from 1 [OF False] have ih: "e + 1 \<le> ulp_exponent a (e + 1)"
      "a < pow2 (ulp_exponent a (e + 1) + 53)"
      "e + 1 < ulp_exponent a (e + 1) \<longrightarrow> pow2 (ulp_exponent a (e + 1) + 52) \<le> a"
      by simp_all
    have "pow2 (ulp_exponent a (e + 1) + 52) \<le> a"
    proof (cases "e + 1 < ulp_exponent a (e + 1)")
      case True
      with ih(3) show ?thesis by simp
    next
      case False
      with ih(1) have "ulp_exponent a (e + 1) = e + 1" by simp
      with \<open>\<not> a < pow2 (e + 53)\<close> show ?thesis by (simp add: algebra_simps)
    qed
    with ih eq show ?thesis by simp
  qed
qed

lemma ulp_exponent_eq:
  assumes "e0 \<le> e" and "e0 < e \<longrightarrow> pow2 (e + 52) \<le> a" and "a < pow2 (e + 53)"
  shows "ulp_exponent a e0 = e"
proof -
  let ?u = "ulp_exponent a e0"
  from ulp_exponent_spec [of e0 a] have s: "e0 \<le> ?u" "a < pow2 (?u + 53)"
    "e0 < ?u \<longrightarrow> pow2 (?u + 52) \<le> a" by simp_all
  have "\<not> ?u < e"
  proof
    assume lt: "?u < e"
    then have "e0 < e" using s(1) by simp
    with assms(2) have "pow2 (e + 52) \<le> a" by simp
    moreover from lt have "pow2 (?u + 53) \<le> pow2 (e + 52)" by (intro pow2_mono) simp
    ultimately show False using s(2) by linarith
  qed
  moreover have "\<not> e < ?u"
  proof
    assume lt: "e < ?u"
    then have "e0 < ?u" using assms(1) by simp
    with s(3) have "pow2 (?u + 52) \<le> a" by simp
    moreover from lt have "pow2 (e + 53) \<le> pow2 (?u + 52)" by (intro pow2_mono) simp
    ultimately show False using assms(3) by linarith
  qed
  ultimately show ?thesis by simp
qed

lemma round_half_even_unique:
  assumes "\<bar>q - of_int m\<bar> < 1 / 2"
  shows "round_half_even q = m"
proof (cases "of_int m \<le> q")
  case True
  with assms have "\<lfloor>q\<rfloor> = m" by (intro floor_unique) (simp_all add: abs_if split: if_splits)
  with assms True show ?thesis by (simp add: round_half_even_def Let_def)
next
  case False
  with assms have fl: "\<lfloor>q\<rfloor> = m - 1"
    by (intro floor_unique) (simp_all add: abs_if split: if_splits)
  from False assms have "1 / 2 < q - of_int (m - 1)" by (simp add: abs_if split: if_splits)
  with fl show ?thesis by (simp add: round_half_even_def Let_def)
qed

lemma round_half_even_int: "round_half_even (of_int m) = m"
  by (rule round_half_even_unique) simp

lemma round_half_even_floor: "\<lfloor>q\<rfloor> \<le> round_half_even q"
  by (simp add: round_half_even_def Let_def)

lemma round_half_even_ge:
  assumes "of_int m \<le> q"
  shows "m \<le> round_half_even q"
proof -
  from assms have "m \<le> \<lfloor>q\<rfloor>" by (simp add: le_floor_iff)
  with round_half_even_floor [of q] show ?thesis by linarith
qed

lemma round_half_even_le:
  assumes "q \<le> of_int m"
  shows "round_half_even q \<le> m"
proof (cases "q = of_int \<lfloor>q\<rfloor>")
  case True
  then have "round_half_even q = \<lfloor>q\<rfloor>"
    by (metis round_half_even_int)
  moreover from assms have "\<lfloor>q\<rfloor> \<le> m" by (simp add: floor_le_iff)
  ultimately show ?thesis by simp
next
  case False
  with of_int_floor_le [of q] have "of_int \<lfloor>q\<rfloor> < q" by linarith
  with assms have "of_int \<lfloor>q\<rfloor> < (of_int m :: real)" by linarith
  then have "\<lfloor>q\<rfloor> < m" by simp
  moreover have "round_half_even q \<le> \<lfloor>q\<rfloor> + 1"
    by (simp add: round_half_even_def Let_def)
  ultimately show ?thesis by simp
qed

lemma round_half_even_below_half:
  assumes "q < of_int m - 1 / 2"
  shows "round_half_even q \<le> m - 1"
proof -
  from assms have "q < of_int m" by linarith
  then have "\<lfloor>q\<rfloor> < m" by (simp add: floor_less_iff)
  then have "\<lfloor>q\<rfloor> \<le> m - 1" by simp
  show ?thesis
  proof (cases "\<lfloor>q\<rfloor> = m - 1")
    case True
    with assms have "q - of_int \<lfloor>q\<rfloor> < 1 / 2" by simp
    with True show ?thesis by (simp add: round_half_even_def Let_def)
  next
    case False
    with \<open>\<lfloor>q\<rfloor> \<le> m - 1\<close> have "\<lfloor>q\<rfloor> + 1 \<le> m - 1" by simp
    moreover have "round_half_even q \<le> \<lfloor>q\<rfloor> + 1"
      by (simp add: round_half_even_def Let_def)
    ultimately show ?thesis by simp
  qed
qed

lemma round_half_even_above_half:
  assumes "even m" and "of_int m - 1 / 2 \<le> q"
  shows "m \<le> round_half_even q"
proof (cases "of_int m \<le> q")
  case True
  then show ?thesis by (rule round_half_even_ge)
next
  case False
  with assms(2) have fl: "\<lfloor>q\<rfloor> = m - 1" by (intro floor_unique) simp_all
  from assms(1) have odd: "odd (m - 1)" by simp
  from assms(2) have "1 / 2 \<le> q - of_int (m - 1)" by simp
  with fl odd show ?thesis by (simp add: round_half_even_def Let_def)
qed


lemma round_half_even_nonneg: "0 \<le> q \<Longrightarrow> 0 \<le> round_half_even q"
  using round_half_even_ge [of 0 q] by simp

lemma round_double_eval:
  assumes "ulp_exponent \<bar>x\<bar> (- 1074) = e" and "round_half_even (\<bar>x\<bar> / pow2 e) = m"
  shows "round_double x = sgn x * of_int m * pow2 e"
  using assms by (simp add: round_double_def)

lemma round_double_abs:
  "\<bar>round_double x\<bar> =
     of_int (round_half_even (\<bar>x\<bar> / pow2 (ulp_exponent \<bar>x\<bar> (- 1074))))
       * pow2 (ulp_exponent \<bar>x\<bar> (- 1074))"
proof (cases "x = 0")
  case True
  have "round_half_even 0 = 0" using round_half_even_int [of 0] by simp
  with True show ?thesis by (simp add: round_double_def)
next
  case False
  let ?e = "ulp_exponent \<bar>x\<bar> (- 1074)"
  have "0 \<le> \<bar>x\<bar> / pow2 ?e" using pow2_pos [of ?e] by simp
  then have "0 \<le> round_half_even (\<bar>x\<bar> / pow2 ?e)" by (rule round_half_even_nonneg)
  with False pow2_pos [of ?e] show ?thesis
    by (simp add: round_double_def Let_def abs_mult abs_sgn_eq)
qed

lemma round_double_overflow_iff:
  "pow2 1024 \<le> \<bar>round_double x\<bar> \<longleftrightarrow> pow2 1024 - pow2 970 \<le> \<bar>x\<bar>"
proof -
  define a where "a = \<bar>x\<bar>"
  define e where "e = ulp_exponent a (- 1074)"
  define q where "q = a / pow2 e"
  define R where "R = of_int (round_half_even q) * pow2 e"
  have R: "\<bar>round_double x\<bar> = R"
    unfolding R_def q_def e_def a_def by (rule round_double_abs)
  have a0: "0 \<le> a" by (simp add: a_def)
  from ulp_exponent_spec [of "- 1074" a]
  have lo: "- 1074 \<le> e" and up: "a < pow2 (e + 53)"
    and nrm: "- 1074 < e \<longrightarrow> pow2 (e + 52) \<le> a"
    by (simp_all add: e_def)
  have pe: "0 < pow2 e" by (rule pow2_pos)
  have p53: "pow2 53 = of_int (2 ^ 53)" and p52: "pow2 52 = of_int (2 ^ 52)"
    by (simp_all add: pow2_def)
  have split1024: "pow2 1024 = pow2 53 * pow2 971" using pow2_add [of 53 971] by simp
  have split1023: "pow2 1023 = pow2 52 * pow2 971" using pow2_add [of 52 971] by simp
  have half: "pow2 971 = 2 * pow2 970" using pow2_add [of 1 970] by (simp add: pow2_def)
  have twice: "pow2 1024 = 2 * pow2 1023" using pow2_add [of 1 1023] by (simp add: pow2_def)
  have p970: "0 < pow2 970" by (rule pow2_pos)
  have p1023: "0 < pow2 1023" by (rule pow2_pos)
  have small970: "pow2 970 < pow2 1023"
    using split1023 half p970 by (simp add: p52)
  consider (A) "a < pow2 1023" | (B) "pow2 1023 \<le> a" "a < pow2 1024" | (C) "pow2 1024 \<le> a"
    by linarith
  then have "pow2 1024 \<le> R \<longleftrightarrow> pow2 1024 - pow2 970 \<le> a"
  proof cases
    case A
    have "e \<le> 970"
    proof (rule ccontr)
      assume "\<not> e \<le> 970"
      then have "971 \<le> e" by simp
      with nrm have "pow2 (e + 52) \<le> a" by simp
      moreover from \<open>971 \<le> e\<close> have "pow2 1023 \<le> pow2 (e + 52)" by (intro pow2_mono) simp
      ultimately show False using A by linarith
    qed
    have "q < pow2 53"
      using up pe by (simp add: q_def pow2_add divide_less_eq mult.commute)
    then have "round_half_even q \<le> 2 ^ 53"
      by (intro round_half_even_le) (simp add: p53)
    then have "of_int (round_half_even q) \<le> pow2 53"
      unfolding p53 by (simp only: of_int_le_iff)
    then have "R \<le> pow2 53 * pow2 e"
      unfolding R_def using pe by (simp add: mult_right_mono)
    also have "\<dots> = pow2 (e + 53)" by (simp add: pow2_add mult.commute)
    also from \<open>e \<le> 970\<close> have "\<dots> \<le> pow2 1023" by (intro pow2_mono) simp
    finally have "R < pow2 1024" using twice p1023 by linarith
    moreover have "a < pow2 1024 - pow2 970" using A twice small970 by linarith
    ultimately show ?thesis by simp
  next
    case B
    have e: "e = 971"
      unfolding e_def by (rule ulp_exponent_eq) (use B in simp_all)
    have q: "q = a / pow2 971" by (simp add: q_def e)
    have Rq: "R = of_int (round_half_even q) * pow2 971" by (simp add: R_def e)
    have p971: "0 < pow2 971" by (rule pow2_pos)
    show ?thesis
    proof (cases "pow2 1024 - pow2 970 \<le> a")
      case True
      then have "pow2 53 * pow2 971 - pow2 971 / 2 \<le> a"
        using split1024 half by simp
      then have "(pow2 53 - 1 / 2) * pow2 971 \<le> a" by (simp add: algebra_simps)
      then have "pow2 53 - 1 / 2 \<le> q"
        using p971 by (simp add: q le_divide_eq)
      then have "2 ^ 53 \<le> round_half_even q"
        by (intro round_half_even_above_half) (simp_all add: p53)
      then have "pow2 53 \<le> of_int (round_half_even q)"
        unfolding p53 by (simp only: of_int_le_iff)
      then have "pow2 53 * pow2 971 \<le> R"
        unfolding Rq using p971 by (simp add: mult_right_mono)
      with True split1024 show ?thesis by simp
    next
      case False
      then have "a < pow2 53 * pow2 971 - pow2 971 / 2"
        using split1024 half by simp
      then have "a < (pow2 53 - 1 / 2) * pow2 971" by (simp add: algebra_simps)
      then have "q < pow2 53 - 1 / 2"
        using p971 by (simp add: q divide_less_eq)
      then have "round_half_even q \<le> 2 ^ 53 - 1"
        by (intro round_half_even_below_half) (simp add: p53)
      then have "of_int (round_half_even q) \<le> pow2 53 - 1"
        unfolding p53 by (metis of_int_1 of_int_diff of_int_le_iff)
      then have "R \<le> (pow2 53 - 1) * pow2 971"
        unfolding Rq using p971 by (simp add: mult_right_mono)
      also have "\<dots> < pow2 53 * pow2 971" using p971 by (simp add: algebra_simps)
      finally have "R < pow2 1024" using split1024 by simp
      with False show ?thesis by simp
    qed
  next
    case C
    have "- 1074 < e"
    proof (rule ccontr)
      assume "\<not> - 1074 < e"
      with lo have "e = - 1074" by simp
      with up have "a < pow2 (- 1021)" by simp
      moreover have "pow2 (- 1021) \<le> pow2 1024" by (intro pow2_mono) simp
      ultimately show False using C by linarith
    qed
    with nrm have n: "pow2 (e + 52) \<le> a" by simp
    have "1024 < e + 53"
    proof (rule ccontr)
      assume "\<not> 1024 < e + 53"
      then have "pow2 (e + 53) \<le> pow2 1024" by (intro pow2_mono) simp
      with up C show False by linarith
    qed
    then have big: "pow2 1024 \<le> pow2 (e + 52)" by (intro pow2_mono) simp
    from n have "pow2 52 \<le> q"
      using pe by (simp add: q_def pow2_add le_divide_eq mult.commute)
    then have "2 ^ 52 \<le> round_half_even q"
      by (intro round_half_even_ge) (simp add: p52)
    then have "pow2 52 \<le> of_int (round_half_even q)"
      unfolding p52 by (simp only: of_int_le_iff)
    then have "pow2 52 * pow2 e \<le> R"
      unfolding R_def using pe by (simp add: mult_right_mono)
    then have "pow2 (e + 52) \<le> R" by (simp add: pow2_add mult.commute)
    with big have "pow2 1024 \<le> R" by linarith
    moreover have "pow2 1024 - pow2 970 \<le> a" using C p970 by linarith
    ultimately show ?thesis by simp
  qed
  then show ?thesis by (simp add: R a_def)
qed


lemma round_double_int_exact:
  assumes "\<bar>i\<bar> < 2 ^ 53"
  shows "round_double (real_of_int i) = real_of_int i"
proof -
  define a where "a = \<bar>real_of_int i\<bar>"
  define e where "e = ulp_exponent a (- 1074)"
  have a: "a = real_of_int \<bar>i\<bar>" by (simp add: a_def)
  from assms have a53: "a < pow2 53"
    unfolding a by (simp add: pow2_def) 
  from ulp_exponent_spec [of "- 1074" a]
  have nrm: "- 1074 < e \<longrightarrow> pow2 (e + 52) \<le> a" by (simp add: e_def)
  have "e \<le> 0"
  proof (rule ccontr)
    assume "\<not> e \<le> 0"
    then have "1 \<le> e" by simp
    with nrm have "pow2 (e + 52) \<le> a" by simp
    moreover from \<open>1 \<le> e\<close> have "pow2 53 \<le> pow2 (e + 52)" by (intro pow2_mono) simp
    ultimately show False using a53 by linarith
  qed
  then have pe: "pow2 e = 1 / 2 ^ nat (- e)"
    by (cases "e = 0") (simp_all add: pow2_def)
  have "a / pow2 e = real_of_int (\<bar>i\<bar> * 2 ^ nat (- e))"
    by (simp add: pe a)
  then have "round_half_even (a / pow2 e) = \<bar>i\<bar> * 2 ^ nat (- e)"
    by (simp only: round_half_even_int)
  then have "round_double (real_of_int i)
      = sgn (real_of_int i) * real_of_int (\<bar>i\<bar> * 2 ^ nat (- e)) * pow2 e"
    by (simp add: round_double_def a_def [symmetric] e_def [symmetric])
  also have "\<dots> = sgn (real_of_int i) * \<bar>real_of_int i\<bar>"
    by (simp add: pe)
  also have "\<dots> = real_of_int i"
    by (simp add: sgn_mult_abs)
  finally show ?thesis .
qed

lemma round_half_even_tie:
  assumes "even m" and "q = of_int m + 1 / 2"
  shows "round_half_even q = m"
proof -
  from assms(2) have "\<lfloor>q\<rfloor> = m" by (intro floor_unique) simp_all
  with assms show ?thesis by (simp add: round_half_even_def Let_def)
qed

lemma round_double_0_6: "round_double 0.6 = 5404319552844595 / 9007199254740992"
proof -
  have e: "ulp_exponent \<bar>0.6\<bar> (- 1074) = - 53"
    by (rule ulp_exponent_eq) (simp_all add: pow2_def)
  have m: "round_half_even (\<bar>0.6\<bar> / pow2 (- 53)) = 5404319552844595"
    by (rule round_half_even_unique) (simp add: pow2_def)
  have "round_double 0.6 = sgn 0.6 * of_int 5404319552844595 * pow2 (- 53)"
    by (rule round_double_eval [OF e m])
  also have "\<dots> = 5404319552844595 / 9007199254740992"
    by (simp add: pow2_def)
  finally show ?thesis .
qed

lemma round_double_500_times_0_6: "round_double (500 * round_double 0.6) = 300"
proof -
  let ?x = "500 * (5404319552844595 / 9007199254740992) :: real"
  have e: "ulp_exponent \<bar>?x\<bar> (- 1074) = - 44"
    by (rule ulp_exponent_eq) (simp_all add: pow2_def)
  have m: "round_half_even (\<bar>?x\<bar> / pow2 (- 44)) = 5277655813324800"
    by (rule round_half_even_unique) (simp add: pow2_def)
  have "round_double ?x = sgn ?x * of_int 5277655813324800 * pow2 (- 44)"
    by (rule round_double_eval [OF e m])
  also have "\<dots> = 300"
    by (simp add: pow2_def)
  finally show ?thesis
    by (simp only: round_double_0_6)
qed

lemma round_double_3_times_0_6:
  "round_double (3 * round_double 0.6) = 8106479329266892 / 4503599627370496"
proof -
  let ?x = "3 * (5404319552844595 / 9007199254740992) :: real"
  have e: "ulp_exponent \<bar>?x\<bar> (- 1074) = - 52"
    by (rule ulp_exponent_eq) (simp_all add: pow2_def)
  have m: "round_half_even (\<bar>?x\<bar> / pow2 (- 52)) = 8106479329266892"
    by (rule round_half_even_tie) (simp_all add: pow2_def)
  have "round_double ?x = sgn ?x * of_int 8106479329266892 * pow2 (- 52)"
    by (rule round_double_eval [OF e m])
  also have "\<dots> = 8106479329266892 / 4503599627370496"
    by (simp add: pow2_def)
  finally show ?thesis
    by (simp only: round_double_0_6)
qed

lemma int_to_float_in_range:
  assumes "\<bar>i\<bar> < 2 ^ 1024 - 2 ^ 970"
  shows "int_to_float i = Inr (round_double (real_of_int i))"
proof -
  have "real_of_int \<bar>i\<bar> < real_of_int (2 ^ 1024 - 2 ^ 970)"
    using assms by (simp only: of_int_less_iff)
  then have "\<bar>real_of_int i\<bar> < pow2 1024 - pow2 970"
    by (simp add: pow2_def)
  then have "\<not> pow2 1024 \<le> \<bar>round_double (real_of_int i)\<bar>"
    by (simp add: round_double_overflow_iff)
  then show ?thesis by (simp add: int_to_float_def Let_def)
qed

lemma int_to_float_overflow:
  assumes "2 ^ 1024 - 2 ^ 970 \<le> \<bar>i\<bar>"
  shows "int_to_float i = Inl (Err OverflowError ''int too large to convert to float'')"
proof -
  have "real_of_int (2 ^ 1024 - 2 ^ 970) \<le> real_of_int \<bar>i\<bar>"
    using assms by (simp only: of_int_le_iff)
  then have "pow2 1024 - pow2 970 \<le> \<bar>real_of_int i\<bar>"
    by (simp add: pow2_def)
  then have "pow2 1024 \<le> \<bar>round_double (real_of_int i)\<bar>"
    by (simp add: round_double_overflow_iff)
  then show ?thesis by (simp add: int_to_float_def Let_def)
qed

section \<open>Default injection\<close>

lemma mul_float_number:
  "is_number x \<Longrightarrow>
   mul_float x = Inr (PFloat (round_double (number_value x * round_double 0.6)))"
  by (cases x)
     (simp_all add: is_number_def number_value_def mul_float_def int_to_float_in_range)

lemma mul_float_overflow:
  "2 ^ 1024 - 2 ^ 970 \<le> \<bar>i\<bar> \<Longrightarrow>
   mul_float (PInt i) = Inl (Err OverflowError ''int too large to convert to float'')"
  by (simp add: mul_float_def int_to_float_overflow)

lemma mul_float_defined_iff: "(\<exists>y. mul_float x = Inr y) \<longleftrightarrow> is_number x"
proof (cases x)
  case (PInt i)
  show ?thesis
  proof (cases "\<bar>i\<bar> < 2 ^ 1024 - 2 ^ 970")
    case True
    with PInt show ?thesis
      by (simp add: is_number_def mul_float_def int_to_float_in_range)
  next
    case False
    then have "2 ^ 1024 - 2 ^ 970 \<le> \<bar>i\<bar>" by simp
    from mul_float_overflow [OF this] False PInt show ?thesis
      by (simp add: is_number_def)
  qed
qed (simp_all add: is_number_def mul_float_def)

lemma set_defaults_map_add: "set_defaults d kvs = map_of kvs ++ d"
proof (induction kvs arbitrary: d)
  case Nil
  show ?case by simp
next
  case (Cons kv kvs)
  obtain k v where kv: "kv = (k, v)" by (cases kv)
  show ?case
    unfolding kv set_defaults.simps Cons.IH
    by (rule ext) (auto simp: map_add_def split: option.splits)
qed


lemma defaults_numeric:
  assumes "input_data ''Tourist_Capacity_Limit'' = Some limit" and "is_number limit"
      and "input_data ''Average_Temperature_C'' = Some t"
  shows "defaults lib input_data =
     Inr [(''Country'', PStr ''USA''),
          (''Flood_Risk_Index'', PFloat 0.3),
          (''Drought_Risk_Index'', PFloat 0.3),
          (''Temperature_C'', t),
          (''Annual_Rainfall_mm'', PFloat 1000.0),
          (''Soil_Erosion_Risk'', PFloat 0.2),
          (''Current_Tourist_Count'',
             PFloat (round_double (number_value limit * round_double 0.6))),
          (''Human_Activity_Index'', PFloat 0.4),
          (''Conservation_Investment_USD'', PFloat 100000.0),
          (''Climate_Risk_Score'', PFloat 0.4)]"
  using assms by (simp add: defaults_def mul_float_number)







section \<open>Answers of the predict endpoint\<close>

lemma predict_endpoint_prediction:
  assumes "body (snd (predict_endpoint lib fs st d)) = Prediction p"
  shows "\<exists>reg_X cls_X regressor classifier score cls proba.
      map_of (models (fst (predict_endpoint lib fs st d))) ''regression'' = Some regressor
    \<and> predict regressor reg_X = Inr score
    \<and> map_of (models (fst (predict_endpoint lib fs st d))) ''classification'' = Some classifier
    \<and> predict classifier cls_X = Inr cls
    \<and> predict_proba classifier cls_X = Inr proba
    \<and> flood_category cls = Inr (flood_risk_category p)
    \<and> probability_map proba = Inr (risk_probabilities p)
    \<and> climate_risk_score p = to_float score
    \<and> risk_level p = risk_level_label score
    \<and> success p
    \<and> status_code (snd (predict_endpoint lib fs st d)) = 200"
proof -
  define st1 where "st1 = (if models st = [] then snd (load_models_and_processors fs st) else st)"
  have ep: "predict_endpoint lib fs st d =
     (if models st1 = []
      then (st1, \<lparr>status_code = 500, body = Failure ''Models not loaded'' False\<rparr>)
      else (case predict_steps lib st1 d of
              Inl e \<Rightarrow> (st1, \<lparr>status_code = 500, body = Failure (message e) False\<rparr>)
            | Inr r \<Rightarrow> (st1, r)))"
    by (simp only: predict_endpoint_def st1_def Let_def)
  have loaded: "models st1 \<noteq> []"
    using assms by (auto simp: ep)
  then obtain r where r: "predict_steps lib st1 d = Inr r"
    using assms by (cases "predict_steps lib st1 d") (auto simp: ep)
  have res: "predict_endpoint lib fs st d = (st1, r)"
    using loaded r by (simp add: ep)
  have br: "body r = Prediction p"
    using assms res by simp
  have complete: "filter (\<lambda>f. d f = None) required = []"
  proof (rule ccontr)
    assume "filter (\<lambda>f. d f = None) required \<noteq> []"
    from predict_steps_missing [OF this, of lib st1] r br show False by simp
  qed
  from predict_steps_complete [OF complete r]
  obtain reg_X cls_X regressor classifier score cls proba flood_cat probs where
        reg: "map_of (models st1) ''regression'' = Some regressor"
    and sc: "predict regressor reg_X = Inr score"
    and clf: "map_of (models st1) ''classification'' = Some classifier"
    and cl: "predict classifier cls_X = Inr cls"
    and pr: "predict_proba classifier cls_X = Inr proba"
    and fc: "flood_category cls = Inr flood_cat"
    and pm: "probability_map proba = Inr probs"
    and r_eq: "r = \<lparr>status_code = 200,
            body = Prediction
              \<lparr>success = True,
               climate_risk_score = to_float score,
               flood_risk_category = flood_cat,
               risk_probabilities = probs,
               risk_level = risk_level_label score\<rparr>\<rparr>"
    by blast
  have p_eq: "p = \<lparr>success = True,
               climate_risk_score = to_float score,
               flood_risk_category = flood_cat,
               risk_probabilities = probs,
               risk_level = risk_level_label score\<rparr>"
    using br r_eq by simp
  have "map_of (models st1) ''regression'' = Some regressor
    \<and> predict regressor reg_X = Inr score
    \<and> map_of (models st1) ''classification'' = Some classifier
    \<and> predict classifier cls_X = Inr cls
    \<and> predict_proba classifier cls_X = Inr proba
    \<and> flood_category cls = Inr (flood_risk_category p)
    \<and> probability_map proba = Inr (risk_probabilities p)
    \<and> climate_risk_score p = to_float score
    \<and> risk_level p = risk_level_label score
    \<and> success p
    \<and> status_code r = 200"
    using reg sc clf cl pr fc pm by (simp add: p_eq r_eq)
  then show ?thesis
    unfolding res fst_conv snd_conv by blast
qed

lemma predict_endpoint_prediction_request:
  assumes "body (snd (predict_endpoint lib fs st d)) = Prediction p"
  shows "\<exists>data cls_X classifier proba.
      inject_defaults lib d = Inr data
    \<and> preprocess_input_data lib (fst (predict_endpoint lib fs st d)) data ''classification''
        = Inr cls_X
    \<and> map_of (models (fst (predict_endpoint lib fs st d))) ''classification'' = Some classifier
    \<and> predict_proba classifier cls_X = Inr proba
    \<and> probability_map proba = Inr (risk_probabilities p)"
proof -
  define st1 where "st1 = (if models st = [] then snd (load_models_and_processors fs st) else st)"
  have ep: "predict_endpoint lib fs st d =
     (if models st1 = []
      then (st1, \<lparr>status_code = 500, body = Failure ''Models not loaded'' False\<rparr>)
      else (case predict_steps lib st1 d of
              Inl e \<Rightarrow> (st1, \<lparr>status_code = 500, body = Failure (message e) False\<rparr>)
            | Inr r \<Rightarrow> (st1, r)))"
    by (simp only: predict_endpoint_def st1_def Let_def)
  have loaded: "models st1 \<noteq> []"
    using assms by (auto simp: ep)
  then obtain r where r: "predict_steps lib st1 d = Inr r"
    using assms by (cases "predict_steps lib st1 d") (auto simp: ep)
  have res: "predict_endpoint lib fs st d = (st1, r)"
    using loaded r by (simp add: ep)
  have br: "body r = Prediction p"
    using assms res by simp
  have complete: "filter (\<lambda>f. d f = None) required = []"
  proof (rule ccontr)
    assume "filter (\<lambda>f. d f = None) required \<noteq> []"
    from predict_steps_missing [OF this, of lib st1] r br show False by simp
  qed
  from predict_steps_complete [OF complete r]
  obtain data cls_X classifier score proba flood_cat probs where
        inj: "inject_defaults lib d = Inr data"
    and pre: "preprocess_input_data lib st1 data ''classification'' = Inr cls_X"
    and clf: "map_of (models st1) ''classification'' = Some classifier"
    and pr: "predict_proba classifier cls_X = Inr proba"
    and pm: "probability_map proba = Inr probs"
    and r_eq: "r = \<lparr>status_code = 200,
            body = Prediction
              \<lparr>success = True,
               climate_risk_score = to_float score,
               flood_risk_category = flood_cat,
               risk_probabilities = probs,
               risk_level = risk_level_label score\<rparr>\<rparr>"
    by blast
  have "risk_probabilities p = probs"
    using br r_eq by auto
  with inj pre clf pr pm show ?thesis
    unfolding res fst_conv by blast
qed

lemma predict_endpoint_answers:
  "(\<exists>msg. snd (predict_endpoint lib fs st d)
            = \<lparr>status_code = 500, body = Failure msg False\<rparr>)
   \<or> (\<exists>msg. snd (predict_endpoint lib fs st d)
            = \<lparr>status_code = 400, body = Failure msg False\<rparr>
          \<and> filter (\<lambda>f. d f = None) required \<noteq> [])
   \<or> (\<exists>p. snd (predict_endpoint lib fs st d)
            = \<lparr>status_code = 200, body = Prediction p\<rparr>)"
proof -
  define st1 where "st1 = (if models st = [] then snd (load_models_and_processors fs st) else st)"
  have ep: "predict_endpoint lib fs st d =
     (if models st1 = []
      then (st1, \<lparr>status_code = 500, body = Failure ''Models not loaded'' False\<rparr>)
      else (case predict_steps lib st1 d of
              Inl e \<Rightarrow> (st1, \<lparr>status_code = 500, body = Failure (message e) False\<rparr>)
            | Inr r \<Rightarrow> (st1, r)))"
    by (simp only: predict_endpoint_def st1_def Let_def)
  show ?thesis
  proof (cases "models st1 = []")
    case True
    then show ?thesis by (simp add: ep)
  next
    case loaded: False
    show ?thesis
    proof (cases "predict_steps lib st1 d")
      case (Inl e)
      with loaded show ?thesis by (simp add: ep)
    next
      case (Inr r)
      show ?thesis
      proof (cases "filter (\<lambda>f. d f = None) required = []")
        case True
        from predict_steps_complete [OF True Inr] obtain p where
          "r = \<lparr>status_code = 200, body = Prediction p\<rparr>" by blast
        with loaded Inr show ?thesis by (simp add: ep)
      next
        case False
        from predict_steps_missing [OF False, of lib st1] Inr False loaded
        show ?thesis by (simp add: ep)
      qed
    qed
  qed
qed

lemma demo_inject:
  "inject_defaults demo_lib demo_record =
     Inr (map_of [(''Country'', PStr ''USA''),
          (''Flood_Risk_Index'', PFloat 0.3),
          (''Drought_Risk_Index'', PFloat 0.3),
          (''Temperature_C'', PFloat 24.5),
          (''Annual_Rainfall_mm'', PFloat 1000.0),
          (''Soil_Erosion_Risk'', PFloat 0.2),
          (''Current_Tourist_Count'', PFloat 300.0),
          (''Human_Activity_Index'', PFloat 0.4),
          (''Conservation_Investment_USD'', PFloat 100000.0),
          (''Climate_Risk_Score'', PFloat 0.4)] ++ demo_record)"
proof -
  have c: "demo_record ''Tourist_Capacity_Limit'' = Some (PInt 500)"
    by (simp add: demo_record_def demo_fields_def)
  have d: "is_number (PInt 500)"
    by (simp add: is_number_def)
  have e: "demo_record ''Average_Temperature_C'' = Some (PFloat 24.5)"
    by (simp add: demo_record_def demo_fields_def)
  have "number_value (PInt 500) = 500"
    using round_double_int_exact [of 500] by (simp add: number_value_def)
  then have f: "round_double (number_value (PInt 500) * round_double 0.6) = 300.0"
    by (simp only: round_double_500_times_0_6)
  show ?thesis
    unfolding inject_defaults_def defaults_numeric [OF c d e] f
    by (simp add: set_defaults_map_add)
qed

lemma demo_cells:
  "demo_defaulted ''Vegetation_Type'' = Some (PStr ''Forest'')"
  "demo_defaulted ''Soil_Type'' = Some (PStr ''Loam'')"
  "demo_defaulted ''Country'' = Some (PStr ''USA'')"
  "demo_defaulted ''Protected_Area_Status'' = Some (PBool True)"
  "demo_defaulted ''Latitude'' = Some (PFloat 12.5)"
  "demo_defaulted ''Elevation_m'' = Some (PInt 900)"
  by (simp_all add: demo_defaulted_def map_add_def demo_record_def demo_fields_def)

lemma demo_encode:
  "encode_categorical demo_lib [(''Vegetation_Type'', demo_encoder)] categorical demo_defaulted
     = Inr (demo_defaulted(''Vegetation_Type'' \<mapsto> PInt 0))"
  by (simp add: categorical_def demo_cells encode_value_def py_str_def demo_encoder_def)

lemma demo_protected:
  "protected_to_int demo_lib (demo_defaulted(''Vegetation_Type'' \<mapsto> PInt 0))
     = Inr (demo_defaulted(''Vegetation_Type'' \<mapsto> PInt 0,
                           ''Protected_Area_Status'' \<mapsto> PInt 1))"
  by (simp add: protected_to_int_def demo_cells demo_lib_def)

lemma demo_preprocess_regression:
  "preprocess_input_data demo_lib (demo_store s c proba) demo_defaulted ''regression''
     = Inr [12.5, 0]"
  by (simp add: preprocess_input_data_def preprocess_steps_def demo_store_def
                demo_encode demo_protected demo_cells demo_scaler_def)

lemma demo_preprocess_classification:
  "preprocess_input_data demo_lib (demo_store s c proba) demo_defaulted ''classification''
     = Inr [0, 900]"
  by (simp add: preprocess_input_data_def preprocess_steps_def demo_store_def
                demo_encode demo_protected demo_cells demo_scaler_def)

lemma demo_complete: "filter (\<lambda>f. demo_record f = None) required = []"
  by (simp add: required_def demo_record_def demo_fields_def)

lemma demo_run:
  assumes "flood_category (IntLabel c) = Inr cat"
  shows "predict_endpoint demo_lib fs (demo_store s c proba) demo_record =
     (demo_store s c proba,
      (case probability_map proba of
         Inl e \<Rightarrow> \<lparr>status_code = 500, body = Failure (message e) False\<rparr>
       | Inr probs \<Rightarrow>
          \<lparr>status_code = 200,
           body = Prediction
             \<lparr>success = True,
              climate_risk_score = s,
              flood_risk_category = cat,
              risk_probabilities = probs,
              risk_level = risk_level_label (FloatValue s)\<rparr>\<rparr>))"
proof -
  have m: "models (demo_store s c proba) =
      [(''regression'', demo_regressor s), (''classification'', demo_classifier c proba)]"
    by (simp add: demo_store_def)
  have "predict_steps demo_lib (demo_store s c proba) demo_record =
     (case probability_map proba of
         Inl e \<Rightarrow> Inl e
       | Inr probs \<Rightarrow> Inr
          \<lparr>status_code = 200,
           body = Prediction
             \<lparr>success = True,
              climate_risk_score = s,
              flood_risk_category = cat,
              risk_probabilities = probs,
              risk_level = risk_level_label (FloatValue s)\<rparr>\<rparr>)"
    unfolding predict_steps_def
    by (simp add: demo_complete demo_inject [folded demo_defaulted_def]
          demo_preprocess_regression demo_preprocess_classification m dict_get_def
          demo_regressor_def demo_classifier_def assms split: sum.splits)
  then show ?thesis
    by (simp add: predict_endpoint_def m split: sum.splits)
qed

lemma probability_map_three:
  "3 \<le> length proba \<Longrightarrow> probability_map proba =
     Inr [(''Low'', proba ! 0), (''Medium'', proba ! 1), (''High'', proba ! 2)]"
  by (auto simp: probability_map_def cats_def upt_rec list_index_def array_index_def)

lemma probability_map_short:
  "length proba < 3 \<Longrightarrow> probability_map proba =
     Inl (Err IndexError
           (''index '' @ show_nat (length proba) @ '' is out of bounds for axis 0 with size ''
            @ show_nat (length proba)))"
proof -
  assume "length proba < 3"
  then consider "length proba = 0" | "length proba = 1" | "length proba = 2" by linarith
  then show ?thesis
    by cases
       (simp_all add: probability_map_def cats_def upt_rec list_index_def array_index_def
                      show_int_def)
qed

lemma flood_category_nonneg:
  "0 \<le> i \<Longrightarrow> flood_category (IntLabel i) =
     Inr (if i = 0 then ''Low'' else if i = 1 then ''Medium''
          else if i = 2 then ''High'' else ''Unknown'')"
proof -
  assume "0 \<le> i"
  then consider "i = 0" | "i = 1" | "i = 2" | "3 \<le> i" by linarith
  then show ?thesis
    by cases (simp_all add: flood_category_def cats_def list_index_def)
qed

text \<open>
  Claim C1. The endpoint maps the class index 0 to \<^verbatim>\<open>Low\<close>, 1 to \<^verbatim>\<open>Medium\<close>, 2 to
  \<^verbatim>\<open>High\<close> and every index from 3 on to \<^verbatim>\<open>Unknown\<close> (lemma \<open>flood_category_nonneg\<close>).
  The claim also sends every negative index to \<^verbatim>\<open>Unknown\<close>; the guard
  \<^verbatim>\<open>cls < len(cats)\<close> lets a negative index through to \<^verbatim>\<open>cats[cls]\<close>, which counts
  from the end of the list: the indices -1, -2, -3 give \<^verbatim>\<open>High\<close>, \<^verbatim>\<open>Medium\<close>, \<^verbatim>\<open>Low\<close>,
  and -4 raises \<^verbatim>\<open>IndexError\<close>. With a classifier that predicts -1 the endpoint answers
  200 with the category \<^verbatim>\<open>High\<close>.
\<close>

theorem flood_category_negative_index:
  "flood_category (IntLabel (- 1)) = Inr ''High''
   \<and> flood_category (IntLabel (- 2)) = Inr ''Medium''
   \<and> flood_category (IntLabel (- 3)) = Inr ''Low''
   \<and> flood_category (IntLabel (- 4)) = Inl (Err IndexError ''list index out of range'')
   \<and> snd (predict_endpoint demo_lib (demo_fs []) (demo_store 0.5 (- 1) [0.1, 0.7, 0.2])
            demo_record)
       = \<lparr>status_code = 200,
          body = Prediction
            \<lparr>success = True,
             climate_risk_score = 0.5,
             flood_risk_category = ''High'',
             risk_probabilities = [(''Low'', 0.1), (''Medium'', 0.7), (''High'', 0.2)],
             risk_level = ''Medium''\<rparr>\<rparr>"
proof -
  have a: "flood_category (IntLabel (- 1)) = Inr ''High''"
    by (simp add: flood_category_def cats_def list_index_def)
  have b: "flood_category (IntLabel (- 2)) = Inr ''Medium''"
    by (simp add: flood_category_def cats_def list_index_def)
  have c: "flood_category (IntLabel (- 3)) = Inr ''Low''"
    by (simp add: flood_category_def cats_def list_index_def)
  have d: "flood_category (IntLabel (- 4)) = Inl (Err IndexError ''list index out of range'')"
    by (simp add: flood_category_def cats_def list_index_def)
  have e: "probability_map [0.1, 0.7, 0.2]
           = Inr [(''Low'', 0.1), (''Medium'', 0.7), (''High'', 0.2)]"
    by (simp add: probability_map_three)
  have f: "risk_level_label (FloatValue 0.5) = ''Medium''"
    by (simp add: risk_level_label_def)
  note run = demo_run [OF a, of "demo_fs []" "0.5" "[0.1, 0.7, 0.2]", unfolded e f sum.case]
  show ?thesis
    using a b c d run by simp
qed

text \<open>
  Claim C2. For every real score \<open>s\<close> the label is \<^verbatim>\<open>Low\<close> when \<open>s < 0.33\<close>, \<^verbatim>\<open>Medium\<close>
  when \<open>0.33 \<le> s < 0.67\<close> and \<^verbatim>\<open>High\<close> when \<open>0.67 \<le> s\<close>; and in every prediction
  answered by the endpoint the field \<^verbatim>\<open>risk_level\<close> is that label of the field
  \<^verbatim>\<open>climate_risk_score\<close>. Scores are reals here, so the comparison is exact.
\<close>

theorem risk_level_thresholds:
  "(s < 0.33 \<longrightarrow> risk_level_label (FloatValue s) = ''Low'')
   \<and> (0.33 \<le> s \<and> s < 0.67 \<longrightarrow> risk_level_label (FloatValue s) = ''Medium'')
   \<and> (0.67 \<le> s \<longrightarrow> risk_level_label (FloatValue s) = ''High'')
   \<and> (body (snd (predict_endpoint lib fs st input_data)) = Prediction p \<longrightarrow>
        (climate_risk_score p < 0.33 \<longrightarrow> risk_level p = ''Low'')
        \<and> (0.33 \<le> climate_risk_score p \<and> climate_risk_score p < 0.67
             \<longrightarrow> risk_level p = ''Medium'')
        \<and> (0.67 \<le> climate_risk_score p \<longrightarrow> risk_level p = ''High''))"
proof -
  have pure: "(to_float x < 0.33 \<longrightarrow> risk_level_label x = ''Low'')
     \<and> (0.33 \<le> to_float x \<and> to_float x < 0.67 \<longrightarrow> risk_level_label x = ''Medium'')
     \<and> (0.67 \<le> to_float x \<longrightarrow> risk_level_label x = ''High'')" for x
    by (simp add: risk_level_label_def)
  have "(climate_risk_score p < 0.33 \<longrightarrow> risk_level p = ''Low'')
        \<and> (0.33 \<le> climate_risk_score p \<and> climate_risk_score p < 0.67
             \<longrightarrow> risk_level p = ''Medium'')
        \<and> (0.67 \<le> climate_risk_score p \<longrightarrow> risk_level p = ''High'')"
    if "body (snd (predict_endpoint lib fs st input_data)) = Prediction p"
  proof -
    from predict_endpoint_prediction [OF that] obtain score where
      "climate_risk_score p = to_float score" "risk_level p = risk_level_label score"
      by blast
    with pure [of score] show ?thesis by simp
  qed
  with pure [of "FloatValue s"] show ?thesis by simp
qed

theorem risk_level_thresholds_witness:
  "risk_level_label (FloatValue 0.10) = ''Low''
   \<and> risk_level_label (FloatValue 0.33) = ''Medium''
   \<and> risk_level_label (FloatValue 0.669) = ''Medium''
   \<and> risk_level_label (FloatValue 0.67) = ''High''
   \<and> risk_level_label (FloatValue 0.99) = ''High''
   \<and> body (snd (predict_endpoint demo_lib (demo_fs []) (demo_store 0.67 1 [0.1, 0.7, 0.2])
                   demo_record))
       = Prediction \<lparr>success = True,
             climate_risk_score = 0.67,
             flood_risk_category = ''Medium'',
             risk_probabilities = [(''Low'', 0.1), (''Medium'', 0.7), (''High'', 0.2)],
             risk_level = ''High''\<rparr>"
proof -
  have a: "flood_category (IntLabel 1) = Inr ''Medium''"
    by (simp add: flood_category_nonneg)
  have e: "probability_map [0.1, 0.7, 0.2]
           = Inr [(''Low'', 0.1), (''Medium'', 0.7), (''High'', 0.2)]"
    by (simp add: probability_map_three)
  have run: "body (snd (predict_endpoint demo_lib (demo_fs []) (demo_store 0.67 1 [0.1, 0.7, 0.2])
                   demo_record))
       = Prediction \<lparr>success = True,
             climate_risk_score = 0.67,
             flood_risk_category = ''Medium'',
             risk_probabilities = [(''Low'', 0.1), (''Medium'', 0.7), (''High'', 0.2)],
             risk_level = risk_level_label (FloatValue 0.67)\<rparr>"
    using demo_run [OF a, of "demo_fs []" "0.67" "[0.1, 0.7, 0.2]", unfolded e sum.case]
    by simp
  from risk_level_thresholds [of "0.10"] risk_level_thresholds [of "0.33"]
       risk_level_thresholds [of "0.669"] risk_level_thresholds [of "0.99"]
       risk_level_thresholds [of "0.67" demo_lib "demo_fs []" "demo_store 0.67 1 [0.1, 0.7, 0.2]"
          demo_record "\<lparr>success = True,
             climate_risk_score = 0.67,
             flood_risk_category = ''Medium'',
             risk_probabilities = [(''Low'', 0.1), (''Medium'', 0.7), (''High'', 0.2)],
             risk_level = risk_level_label (FloatValue 0.67)\<rparr>"]
       run
  show ?thesis by simp
qed

text \<open>
  Claim C9 says that a probability vector with fewer than 3 entries populates the labels
  in range only and is never indexed past its end. The comprehension runs over
  \<^verbatim>\<open>range(len(cats))\<close> whatever the length of the vector: with two probabilities
  \<^verbatim>\<open>proba[2]\<close> raises \<^verbatim>\<open>IndexError\<close>, no map is built and the endpoint answers 500.
\<close>

theorem probability_map_counterexample:
  "probability_map [0.5, 0.5]
     = Inl (Err IndexError ''index 2 is out of bounds for axis 0 with size 2'')
   \<and> snd (predict_endpoint demo_lib (demo_fs []) (demo_store 0.5 1 [0.5, 0.5]) demo_record)
     = \<lparr>status_code = 500,
        body = Failure ''index 2 is out of bounds for axis 0 with size 2'' False\<rparr>"
proof -
  have a: "flood_category (IntLabel 1) = Inr ''Medium''"
    by (simp add: flood_category_nonneg)
  have n: "show_nat (Suc (Suc 0)) = ''2''"
    by (simp add: show_nat.simps)
  have b: "probability_map [0.5, 0.5]
     = Inl (Err IndexError ''index 2 is out of bounds for axis 0 with size 2'')"
    by (simp add: probability_map_short n)
  note run = demo_run [OF a, of "demo_fs []" "0.5" "[0.5, 0.5]", unfolded b sum.case]
  show ?thesis
    using b run by simp
qed

text \<open>
  Claim C9, as amended. A probability vector with at least 3 entries gives the map with
  exactly the labels \<^verbatim>\<open>Low\<close>, \<^verbatim>\<open>Medium\<close>, \<^verbatim>\<open>High\<close>, in this order, holding the entries
  0, 1 and 2 of the vector. A vector with fewer than 3 entries gives no map: reading the
  first index past its end raises \<^verbatim>\<open>IndexError\<close>. Hence every prediction answered by
  the endpoint carries the three labels with the first three entries of a vector of
  length at least 3 returned by the stored classifier; and when no required field is
  absent and the stored classifier returns only vectors with fewer than 3 entries, or
  returns such a vector for the features of this request, the endpoint answers 500 with
  the success flag false.
\<close>

theorem probability_map_needs_three_entries:
  "(3 \<le> length proba \<longrightarrow>
      probability_map proba
        = Inr [(''Low'', proba ! 0), (''Medium'', proba ! 1), (''High'', proba ! 2)])
   \<and> (length proba < 3 \<longrightarrow>
      probability_map proba
        = Inl (Err IndexError
            (''index '' @ show_nat (length proba)
             @ '' is out of bounds for axis 0 with size '' @ show_nat (length proba))))
   \<and> (body (snd (predict_endpoint lib fs st input_data)) = Prediction p \<longrightarrow>
        (\<exists>classifier X vec.
            map_of (models (fst (predict_endpoint lib fs st input_data))) ''classification''
              = Some classifier
          \<and> predict_proba classifier X = Inr vec
          \<and> 3 \<le> length vec
          \<and> risk_probabilities p
              = [(''Low'', vec ! 0), (''Medium'', vec ! 1), (''High'', vec ! 2)]))
   \<and> (filter (\<lambda>f. input_data f = None) required = []
        \<and> (\<forall>classifier X vec.
              map_of (models (fst (predict_endpoint lib fs st input_data))) ''classification''
                = Some classifier
              \<and> predict_proba classifier X = Inr vec \<longrightarrow> length vec < 3) \<longrightarrow>
        (\<exists>msg. snd (predict_endpoint lib fs st input_data)
                 = \<lparr>status_code = 500, body = Failure msg False\<rparr>))
   \<and> (filter (\<lambda>f. input_data f = None) required = []
        \<and> (\<forall>data cls_X classifier vec.
              inject_defaults lib input_data = Inr data
              \<and> preprocess_input_data lib (fst (predict_endpoint lib fs st input_data)) data
                    ''classification'' = Inr cls_X
              \<and> map_of (models (fst (predict_endpoint lib fs st input_data))) ''classification''
                    = Some classifier
              \<and> predict_proba classifier cls_X = Inr vec \<longrightarrow> length vec < 3) \<longrightarrow>
        (\<exists>msg. snd (predict_endpoint lib fs st input_data)
                 = \<lparr>status_code = 500, body = Failure msg False\<rparr>))"
proof -
  have pred: "\<exists>classifier X vec.
            map_of (models (fst (predict_endpoint lib fs st input_data))) ''classification''
              = Some classifier
          \<and> predict_proba classifier X = Inr vec
          \<and> 3 \<le> length vec
          \<and> risk_probabilities q
              = [(''Low'', vec ! 0), (''Medium'', vec ! 1), (''High'', vec ! 2)]"
    if "body (snd (predict_endpoint lib fs st input_data)) = Prediction q" for q
  proof -
    from predict_endpoint_prediction [OF that] obtain classifier X vec where
          c: "map_of (models (fst (predict_endpoint lib fs st input_data))) ''classification''
               = Some classifier"
      and v: "predict_proba classifier X = Inr vec"
      and m: "probability_map vec = Inr (risk_probabilities q)"
      by blast
    have len: "3 \<le> length vec"
    proof (rule ccontr)
      assume "\<not> 3 \<le> length vec"
      then have "length vec < 3" by simp
      from probability_map_short [OF this] m show False by simp
    qed
    from probability_map_three [OF len] m
    have "risk_probabilities q = [(''Low'', vec ! 0), (''Medium'', vec ! 1), (''High'', vec ! 2)]"
      by simp
    with c v len show ?thesis by blast
  qed
  have short: "\<exists>msg. snd (predict_endpoint lib fs st input_data)
                 = \<lparr>status_code = 500, body = Failure msg False\<rparr>"
    if complete: "filter (\<lambda>f. input_data f = None) required = []"
    and all_short: "\<forall>classifier X vec.
              map_of (models (fst (predict_endpoint lib fs st input_data))) ''classification''
                = Some classifier
              \<and> predict_proba classifier X = Inr vec \<longrightarrow> length vec < 3"
  proof -
    have "\<not> (\<exists>q. snd (predict_endpoint lib fs st input_data)
                 = \<lparr>status_code = 200, body = Prediction q\<rparr>)"
    proof
      assume "\<exists>q. snd (predict_endpoint lib fs st input_data)
                 = \<lparr>status_code = 200, body = Prediction q\<rparr>"
      then obtain q where "body (snd (predict_endpoint lib fs st input_data)) = Prediction q"
        by auto
      from pred [OF this] all_short show False by fastforce
    qed
    with predict_endpoint_answers [of lib fs st input_data] complete show ?thesis
      by blast
  qed
  have tied: "\<exists>msg. snd (predict_endpoint lib fs st input_data)
                 = \<lparr>status_code = 500, body = Failure msg False\<rparr>"
    if complete: "filter (\<lambda>f. input_data f = None) required = []"
    and request_short: "\<forall>data cls_X classifier vec.
              inject_defaults lib input_data = Inr data
              \<and> preprocess_input_data lib (fst (predict_endpoint lib fs st input_data)) data
                    ''classification'' = Inr cls_X
              \<and> map_of (models (fst (predict_endpoint lib fs st input_data))) ''classification''
                    = Some classifier
              \<and> predict_proba classifier cls_X = Inr vec \<longrightarrow> length vec < 3"
  proof -
    have "\<not> (\<exists>q. snd (predict_endpoint lib fs st input_data)
                 = \<lparr>status_code = 200, body = Prediction q\<rparr>)"
    proof
      assume "\<exists>q. snd (predict_endpoint lib fs st input_data)
                 = \<lparr>status_code = 200, body = Prediction q\<rparr>"
      then obtain q where q: "body (snd (predict_endpoint lib fs st input_data)) = Prediction q"
        by auto
      from predict_endpoint_prediction_request [OF q]
      obtain data cls_X classifier vec where
            "inject_defaults lib input_data = Inr data"
        and "preprocess_input_data lib (fst (predict_endpoint lib fs st input_data)) data
               ''classification'' = Inr cls_X"
        and "map_of (models (fst (predict_endpoint lib fs st input_data))) ''classification''
               = Some classifier"
        and "predict_proba classifier cls_X = Inr vec"
        and m: "probability_map vec = Inr (risk_probabilities q)"
        by blast
      with request_short have "length vec < 3" by blast
      from probability_map_short [OF this] m show False by simp
    qed
    with predict_endpoint_answers [of lib fs st input_data] complete show ?thesis
      by blast
  qed
  from pred [of p] short tied probability_map_three [of proba] probability_map_short [of proba]
  show ?thesis by blast
qed

theorem probability_map_needs_three_entries_witness:
  "3 \<le> length [0.1, 0.7, 0.2 :: real]
   \<and> probability_map [0.1, 0.7, 0.2] = Inr [(''Low'', 0.1), (''Medium'', 0.7), (''High'', 0.2)]
   \<and> length [0.5, 0.5 :: real] < 3
   \<and> probability_map [0.5, 0.5]
       = Inl (Err IndexError ''index 2 is out of bounds for axis 0 with size 2'')
   \<and> body (snd (predict_endpoint demo_lib (demo_fs []) (demo_store 0.5 1 [0.1, 0.7, 0.2])
                   demo_record))
       = Prediction \<lparr>success = True,
             climate_risk_score = 0.5,
             flood_risk_category = ''Medium'',
             risk_probabilities = [(''Low'', 0.1), (''Medium'', 0.7), (''High'', 0.2)],
             risk_level = ''Medium''\<rparr>
   \<and> filter (\<lambda>f. demo_record f = None) required = []
   \<and> map_of (models (demo_store 0.5 1 [0.5, 0.5])) ''classification''
       = Some (demo_classifier 1 [0.5, 0.5])
   \<and> predict_proba (demo_classifier 1 [0.5, 0.5]) [] = Inr [0.5, 0.5]
   \<and> status_code (snd (predict_endpoint demo_lib (demo_fs []) (demo_store 0.5 1 [0.5, 0.5])
                          demo_record)) = 500"
proof -
  have a: "flood_category (IntLabel 1) = Inr ''Medium''"
    by (simp add: flood_category_nonneg)
  have n: "show_nat (Suc (Suc 0)) = ''2''"
    by (simp add: show_nat.simps)
  have f: "risk_level_label (FloatValue 0.5) = ''Medium''"
    by (simp add: risk_level_label_def)
  from probability_map_needs_three_entries [of "[0.1, 0.7, 0.2]"]
  have e: "probability_map [0.1, 0.7, 0.2]
             = Inr [(''Low'', 0.1), (''Medium'', 0.7), (''High'', 0.2)]"
    by simp
  from probability_map_needs_three_entries [of "[0.5, 0.5]"]
  have b: "probability_map [0.5, 0.5]
     = Inl (Err IndexError ''index 2 is out of bounds for axis 0 with size 2'')"
    by (simp add: n)
  note run = demo_run [OF a, of "demo_fs []" "0.5" "[0.1, 0.7, 0.2]", unfolded e f sum.case]
  have c: "map_of (models (demo_store 0.5 1 [0.5, 0.5])) ''classification''
       = Some (demo_classifier 1 [0.5, 0.5])"
    by (simp add: demo_store_def)
  have d: "predict_proba (demo_classifier 1 [0.5, 0.5]) X = Inr [0.5, 0.5]" for X
    by (simp add: demo_classifier_def)
  have st: "fst (predict_endpoint demo_lib (demo_fs []) (demo_store 0.5 1 [0.5, 0.5]) demo_record)
              = demo_store 0.5 1 [0.5, 0.5]"
    by (simp add: demo_run [OF a])
  have all_short: "\<forall>classifier X vec.
      map_of (models (fst (predict_endpoint demo_lib (demo_fs []) (demo_store 0.5 1 [0.5, 0.5])
                             demo_record))) ''classification'' = Some classifier
      \<and> predict_proba classifier X = Inr vec \<longrightarrow> length vec < 3"
    unfolding st c using d by auto
  from probability_map_needs_three_entries
         [of "[]" demo_lib "demo_fs []" "demo_store 0.5 1 [0.5, 0.5]" demo_record]
       demo_complete all_short
  obtain msg where "snd (predict_endpoint demo_lib (demo_fs []) (demo_store 0.5 1 [0.5, 0.5])
                     demo_record) = \<lparr>status_code = 500, body = Failure msg False\<rparr>"
    by blast
  then have g: "status_code (snd (predict_endpoint demo_lib (demo_fs [])
                   (demo_store 0.5 1 [0.5, 0.5]) demo_record)) = 500"
    by simp
  show ?thesis
    using e b run demo_complete c d [of "[]"] g by simp
qed

section \<open>Preprocessing: categorical encoding\<close>

lemma encode_categorical_other:
  "encode_categorical lib encs feats df = Inr df' \<Longrightarrow> f \<notin> set feats \<Longrightarrow> df' f = df f"
proof (induction feats arbitrary: df)
  case Nil
  then show ?case by simp
next
  case (Cons g feats)
  then show ?case
    by (auto split: option.splits sum.splits)
qed

lemma encode_categorical_value:
  assumes "distinct feats" and "f \<in> set feats"
      and "df f = Some x" and "map_of encs f = Some encoder"
      and "encode_categorical lib encs feats df = Inr df'"
  shows "\<exists>code. encode_value lib encoder x = Inr code \<and> df' f = Some code"
  using assms
proof (induction feats arbitrary: df)
  case Nil
  then show ?case by simp
next
  case (Cons g feats)
  show ?case
  proof (cases "g = f")
    case True
    with Cons.prems obtain code where
      c: "encode_value lib encoder x = Inr code"
      and rest: "encode_categorical lib encs feats (df(f \<mapsto> code)) = Inr df'"
      by (auto split: sum.splits)
    from Cons.prems(1) True have "f \<notin> set feats" by simp
    from encode_categorical_other [OF rest this] have "df' f = Some code" by simp
    with c show ?thesis by blast
  next
    case False
    with Cons.prems have f_in: "f \<in> set feats" and d: "distinct feats" by simp_all
    from Cons.prems(5) obtain df1 where
      rest: "encode_categorical lib encs feats df1 = Inr df'" and same: "df1 f = df f"
      using False by (auto split: option.splits sum.splits)
    from Cons.IH [OF d f_in _ Cons.prems(4) rest] same Cons.prems(3) show ?thesis by simp
  qed
qed

lemma encode_categorical_failure:
  assumes "distinct feats" and "encode_categorical lib encs feats df = Inl e"
  shows "\<exists>g x encoder. g \<in> set feats \<and> df g = Some x \<and> map_of encs g = Some encoder
           \<and> encode_value lib encoder x = Inl e"
  using assms
proof (induction feats arbitrary: df)
  case Nil
  then show ?case by simp
next
  case (Cons g feats)
  from Cons.prems(1) have d: "distinct feats" and fresh: "g \<notin> set feats" by simp_all
  consider
      (here) x encoder where "df g = Some x" "map_of encs g = Some encoder"
         "encode_value lib encoder x = Inl e"
    | (later) df1 where "encode_categorical lib encs feats df1 = Inl e"
         "\<forall>h. h \<noteq> g \<longrightarrow> df1 h = df h"
    using Cons.prems(2) by (auto split: option.splits sum.splits)
  then show ?case
  proof cases
    case here
    then show ?thesis by auto
  next
    case later
    from Cons.IH [OF d later(1)] obtain h x encoder where
      h: "h \<in> set feats" "df1 h = Some x" "map_of encs h = Some encoder"
         "encode_value lib encoder x = Inl e"
      by blast
    from h(1) fresh have "h \<noteq> g" by auto
    with later(2) h(2) have "df h = Some x" by simp
    with h show ?thesis by auto
  qed
qed

lemma categorical_distinct: "distinct categorical"
  by (simp add: categorical_def)

text \<open>
  Claim C6. Let a categorical field (\<^verbatim>\<open>Vegetation_Type\<close>, \<^verbatim>\<open>Soil_Type\<close> or \<^verbatim>\<open>Country\<close>) of
  the record hold a string and let the task have an encoder for it. If the string is not
  among the encoder's classes, the cell is encoded as the integer 0 without calling the
  encoder: whenever the encoding loop succeeds the field holds 0, and whenever the loop
  fails the exception comes from the encoding of another categorical field. If the string
  is a known class whose trained code is \<open>code\<close>, the field holds \<open>code\<close>.
\<close>

theorem unknown_category_encodes_to_zero:
  assumes "feat \<in> set categorical" and "data feat = Some (PStr s)"
      and "map_of encs feat = Some encoder"
  shows "(s \<notin> set (classes encoder) \<longrightarrow>
            encode_value lib encoder (PStr s) = Inr (PInt 0)
          \<and> (\<forall>df. encode_categorical lib encs categorical data = Inr df
                 \<longrightarrow> df feat = Some (PInt 0))
          \<and> (\<forall>e. encode_categorical lib encs categorical data = Inl e
                 \<longrightarrow> (\<exists>g x other. g \<in> set categorical \<and> g \<noteq> feat \<and> data g = Some x
                        \<and> map_of encs g = Some other
                        \<and> encode_value lib other x = Inl e)))
       \<and> (s \<in> set (classes encoder) \<longrightarrow>
            (\<forall>code. encoder_transform encoder s = Inr code \<longrightarrow>
               encode_value lib encoder (PStr s) = Inr (PInt code)
             \<and> (\<forall>df. encode_categorical lib encs categorical data = Inr df
                    \<longrightarrow> df feat = Some (PInt code))))"
proof (intro conjI impI allI)
  assume unk: "s \<notin> set (classes encoder)"
  then show zero: "encode_value lib encoder (PStr s) = Inr (PInt 0)"
    by (simp add: encode_value_def py_str_def)
  {
    fix df assume "encode_categorical lib encs categorical data = Inr df"
    from encode_categorical_value [OF categorical_distinct assms this] zero
    show "df feat = Some (PInt 0)" by auto
  }
  {
    fix e assume "encode_categorical lib encs categorical data = Inl e"
    from encode_categorical_failure [OF categorical_distinct this] obtain g x other where
      g: "g \<in> set categorical" "data g = Some x" "map_of encs g = Some other"
         "encode_value lib other x = Inl e"
      by blast
    have "g \<noteq> feat"
    proof
      assume "g = feat"
      with g assms zero show False by simp
    qed
    with g show "\<exists>g x other. g \<in> set categorical \<and> g \<noteq> feat \<and> data g = Some x
                        \<and> map_of encs g = Some other
                        \<and> encode_value lib other x = Inl e"
      by blast
  }
next
  fix code
  assume known: "s \<in> set (classes encoder)" and tr: "encoder_transform encoder s = Inr code"
  then show val: "encode_value lib encoder (PStr s) = Inr (PInt code)"
    by (simp add: encode_value_def py_str_def)
  fix df assume "encode_categorical lib encs categorical data = Inr df"
  from encode_categorical_value [OF categorical_distinct assms this] val
  show "df feat = Some (PInt code)" by auto
qed

theorem unknown_category_encodes_to_zero_witness:
  "''Vegetation_Type'' \<in> set categorical
   \<and> tundra_record ''Vegetation_Type'' = Some (PStr ''Tundra'')
   \<and> map_of [(''Vegetation_Type'', demo_encoder)] ''Vegetation_Type'' = Some demo_encoder
   \<and> ''Tundra'' \<notin> set (classes demo_encoder)
   \<and> encode_categorical demo_lib [(''Vegetation_Type'', demo_encoder)] categorical tundra_record
       = Inr (tundra_record(''Vegetation_Type'' \<mapsto> PInt 0))
   \<and> demo_defaulted ''Vegetation_Type'' = Some (PStr ''Forest'')
   \<and> ''Forest'' \<in> set (classes demo_encoder)
   \<and> encoder_transform demo_encoder ''Forest'' = Inr 0
   \<and> encode_value demo_lib demo_encoder (PStr ''Grassland'') = Inr (PInt 1)
   \<and> encode_categorical demo_lib [(''Vegetation_Type'', demo_encoder)] categorical demo_defaulted
       = Inr (demo_defaulted(''Vegetation_Type'' \<mapsto> PInt 0))"
proof -
  have a: "''Vegetation_Type'' \<in> set categorical"
    by (simp add: categorical_def)
  have b: "tundra_record ''Vegetation_Type'' = Some (PStr ''Tundra'')"
    by (simp add: tundra_record_def)
  have c: "map_of [(''Vegetation_Type'', demo_encoder)] ''Vegetation_Type'' = Some demo_encoder"
    by simp
  have d: "''Tundra'' \<notin> set (classes demo_encoder)"
    by (simp add: demo_encoder_def)
  have e: "demo_defaulted ''Vegetation_Type'' = Some (PStr ''Forest'')"
    by (rule demo_cells)
  have f: "''Forest'' \<in> set (classes demo_encoder)"
    and g: "encoder_transform demo_encoder ''Forest'' = Inr 0"
    by (simp_all add: demo_encoder_def)
  have h: "encode_value demo_lib demo_encoder (PStr ''Grassland'') = Inr (PInt 1)"
    by (simp add: encode_value_def py_str_def demo_encoder_def)
  have other: "tundra_record ''Soil_Type'' = Some (PStr ''Loam'')"
     "tundra_record ''Country'' = Some (PStr ''USA'')"
    by (simp_all add: tundra_record_def demo_cells)
  note unk = unknown_category_encodes_to_zero
                [where feat = "''Vegetation_Type''" and data = tundra_record
                   and s = "''Tundra''" and encs = "[(''Vegetation_Type'', demo_encoder)]"
                   and encoder = demo_encoder and lib = demo_lib,
                 OF a b c]
  from unk d have zero: "encode_value demo_lib demo_encoder (PStr ''Tundra'') = Inr (PInt 0)"
    by blast
  have run: "encode_categorical demo_lib [(''Vegetation_Type'', demo_encoder)] categorical
               tundra_record
       = Inr (tundra_record(''Vegetation_Type'' \<mapsto> PInt 0))"
    by (simp add: categorical_def b other zero)
  show ?thesis
    using a b c d e f g h run demo_encode by simp
qed

section \<open>Preprocessing: failures\<close>

text \<open>
  Claim C8. \<^verbatim>\<open>preprocess_input_data\<close> fails exactly when a step of its body fails, and
  then with the single exception kind \<^verbatim>\<open>Exception\<close> whose text is
  \<^verbatim>\<open>Error preprocessing data: \<close> followed by the text of the original failure. It fails
  in this way when the models map is empty, when the task has no entry in \<open>encoders\<close>, in
  \<open>scalers\<close> or no \<^verbatim>\<open><task>_features\<close> entry in \<open>feature_names\<close>, when the encoding of
  a categorical field or the integer conversion raises, when a column of the task's
  feature list is absent from the record, and when the scaler raises.
\<close>

theorem preprocess_failure_is_generic:
  "(models st = [] \<longrightarrow>
      preprocess_input_data lib st data task_type
        = Inl (Err Exception ''Error preprocessing data: Models not loaded''))
   \<and> (models st \<noteq> [] \<and> (map_of (encoders st) task_type = None
                          \<or> map_of (scalers st) task_type = None
                          \<or> map_of (feature_names st) (task_type @ ''_features'') = None) \<longrightarrow>
      preprocess_input_data lib st data task_type
        = Inl (Err Exception
            (''Error preprocessing data: Missing encoders/scalers/features for task ''
             @ quote @ task_type @ quote)))
   \<and> (models st \<noteq> [] \<and> map_of (encoders st) task_type = Some encs
        \<and> map_of (scalers st) task_type = Some sc
        \<and> map_of (feature_names st) (task_type @ ''_features'') = Some cols \<longrightarrow>
        (\<forall>e. encode_categorical lib encs categorical data = Inl e \<longrightarrow>
           preprocess_input_data lib st data task_type
             = Inl (Err Exception (''Error preprocessing data: '' @ message e)))
      \<and> (\<forall>df1. encode_categorical lib encs categorical data = Inr df1 \<longrightarrow>
           (\<forall>e. protected_to_int lib df1 = Inl e \<longrightarrow>
              preprocess_input_data lib st data task_type
                = Inl (Err Exception (''Error preprocessing data: '' @ message e)))
         \<and> (\<forall>df2. protected_to_int lib df1 = Inr df2 \<longrightarrow>
              (filter (\<lambda>c. df2 c = None) cols \<noteq> [] \<longrightarrow>
                 preprocess_input_data lib st data task_type
                   = Inl (Err Exception
                       (''Error preprocessing data: Missing input features: ''
                        @ repr_str_list lib (filter (\<lambda>c. df2 c = None) cols))))
            \<and> (filter (\<lambda>c. df2 c = None) cols = [] \<longrightarrow>
                 (\<forall>e. scaler_transform sc (map (\<lambda>c. the (df2 c)) cols) = Inl e \<longrightarrow>
                    preprocess_input_data lib st data task_type
                      = Inl (Err Exception (''Error preprocessing data: '' @ message e)))))))
   \<and> (\<forall>e. preprocess_steps lib st data task_type = Inl e \<longrightarrow>
         preprocess_input_data lib st data task_type
           = Inl (Err Exception (''Error preprocessing data: '' @ message e)))
   \<and> (\<forall>e'. preprocess_input_data lib st data task_type = Inl e' \<longrightarrow>
         (\<exists>e. preprocess_steps lib st data task_type = Inl e
             \<and> e' = Err Exception (''Error preprocessing data: '' @ message e)))"
proof (intro conjI)
  show "models st = [] \<longrightarrow>
      preprocess_input_data lib st data task_type
        = Inl (Err Exception ''Error preprocessing data: Models not loaded'')"
    by (simp add: preprocess_input_data_def preprocess_steps_def)
  show "models st \<noteq> [] \<and> (map_of (encoders st) task_type = None
                          \<or> map_of (scalers st) task_type = None
                          \<or> map_of (feature_names st) (task_type @ ''_features'') = None) \<longrightarrow>
      preprocess_input_data lib st data task_type
        = Inl (Err Exception
            (''Error preprocessing data: Missing encoders/scalers/features for task ''
             @ quote @ task_type @ quote))"
    by (auto simp: preprocess_input_data_def preprocess_steps_def split: option.splits)
  show "models st \<noteq> [] \<and> map_of (encoders st) task_type = Some encs
        \<and> map_of (scalers st) task_type = Some sc
        \<and> map_of (feature_names st) (task_type @ ''_features'') = Some cols \<longrightarrow>
        (\<forall>e. encode_categorical lib encs categorical data = Inl e \<longrightarrow>
           preprocess_input_data lib st data task_type
             = Inl (Err Exception (''Error preprocessing data: '' @ message e)))
      \<and> (\<forall>df1. encode_categorical lib encs categorical data = Inr df1 \<longrightarrow>
           (\<forall>e. protected_to_int lib df1 = Inl e \<longrightarrow>
              preprocess_input_data lib st data task_type
                = Inl (Err Exception (''Error preprocessing data: '' @ message e)))
         \<and> (\<forall>df2. protected_to_int lib df1 = Inr df2 \<longrightarrow>
              (filter (\<lambda>c. df2 c = None) cols \<noteq> [] \<longrightarrow>
                 preprocess_input_data lib st data task_type
                   = Inl (Err Exception
                       (''Error preprocessing data: Missing input features: ''
                        @ repr_str_list lib (filter (\<lambda>c. df2 c = None) cols))))
            \<and> (filter (\<lambda>c. df2 c = None) cols = [] \<longrightarrow>
                 (\<forall>e. scaler_transform sc (map (\<lambda>c. the (df2 c)) cols) = Inl e \<longrightarrow>
                    preprocess_input_data lib st data task_type
                      = Inl (Err Exception (''Error preprocessing data: '' @ message e))))))"
    by (simp add: preprocess_input_data_def preprocess_steps_def)
  show "\<forall>e. preprocess_steps lib st data task_type = Inl e \<longrightarrow>
         preprocess_input_data lib st data task_type
           = Inl (Err Exception (''Error preprocessing data: '' @ message e))"
    by (simp add: preprocess_input_data_def)
  show "\<forall>e'. preprocess_input_data lib st data task_type = Inl e' \<longrightarrow>
         (\<exists>e. preprocess_steps lib st data task_type = Inl e
             \<and> e' = Err Exception (''Error preprocessing data: '' @ message e))"
    by (auto simp: preprocess_input_data_def split: sum.splits)
qed

theorem preprocess_failure_is_generic_witness:
  "models empty_store = []
   \<and> preprocess_input_data demo_lib empty_store demo_defaulted ''regression''
       = Inl (Err Exception ''Error preprocessing data: Models not loaded'')
   \<and> models (demo_store 0.5 1 []) \<noteq> []
   \<and> map_of (encoders (demo_store 0.5 1 [])) ''ranking'' = None
   \<and> preprocess_input_data demo_lib (demo_store 0.5 1 []) demo_defaulted ''ranking''
       = Inl (Err Exception
           (''Error preprocessing data: Missing encoders/scalers/features for task ''
            @ quote @ ''ranking'' @ quote))
   \<and> preprocess_steps demo_lib (demo_store 0.5 1 []) (demo_defaulted(''Latitude'' := None))
         ''regression''
       = Inl (Err Exception (''Missing input features: ['' @ quote @ ''Latitude'' @ quote @ '']''))
   \<and> preprocess_input_data demo_lib (demo_store 0.5 1 []) (demo_defaulted(''Latitude'' := None))
         ''regression''
       = Inl (Err Exception
           (''Error preprocessing data: Missing input features: ['' @ quote @ ''Latitude''
            @ quote @ '']''))
   \<and> preprocess_steps demo_lib (demo_store 0.5 1 [])
         (demo_defaulted(''Protected_Area_Status'' \<mapsto> PStr ''yes'')) ''regression''
       = Inl (Err TypeError ''cannot convert'')
   \<and> preprocess_input_data demo_lib (demo_store 0.5 1 [])
         (demo_defaulted(''Protected_Area_Status'' \<mapsto> PStr ''yes'')) ''regression''
       = Inl (Err Exception ''Error preprocessing data: cannot convert'')"
proof -
  have a: "models empty_store = []"
    by (simp add: empty_store_def)
  have b: "models (demo_store 0.5 1 []) \<noteq> []"
    by (simp add: demo_store_def)
  have c: "map_of (encoders (demo_store 0.5 1 [])) ''ranking'' = None"
    by (simp add: demo_store_def)
  have d: "preprocess_steps demo_lib (demo_store 0.5 1 []) (demo_defaulted(''Latitude'' := None))
         ''regression''
       = Inl (Err Exception (''Missing input features: ['' @ quote @ ''Latitude'' @ quote @ '']''))"
    by (simp add: preprocess_steps_def demo_store_def categorical_def demo_cells
          encode_value_def py_str_def demo_encoder_def protected_to_int_def demo_lib_def
          repr_str_list_def repr_str_def plain_char_def)
  have e: "preprocess_steps demo_lib (demo_store 0.5 1 [])
         (demo_defaulted(''Protected_Area_Status'' \<mapsto> PStr ''yes'')) ''regression''
       = Inl (Err TypeError ''cannot convert'')"
    by (simp add: preprocess_steps_def demo_store_def categorical_def demo_cells
          encode_value_def py_str_def demo_encoder_def protected_to_int_def demo_lib_def)
  note t1 = preprocess_failure_is_generic
              [of empty_store demo_lib demo_defaulted "''regression''"]
  note t2 = preprocess_failure_is_generic
              [of "demo_store 0.5 1 []" demo_lib demo_defaulted "''ranking''"]
  note t3 = preprocess_failure_is_generic
              [of "demo_store 0.5 1 []" demo_lib "demo_defaulted(''Latitude'' := None)"
                  "''regression''"]
  note t4 = preprocess_failure_is_generic
              [of "demo_store 0.5 1 []" demo_lib
                  "demo_defaulted(''Protected_Area_Status'' \<mapsto> PStr ''yes'')" "''regression''"]
  have r1: "preprocess_input_data demo_lib empty_store demo_defaulted ''regression''
       = Inl (Err Exception ''Error preprocessing data: Models not loaded'')"
    using t1 a by blast
  have r2: "preprocess_input_data demo_lib (demo_store 0.5 1 []) demo_defaulted ''ranking''
       = Inl (Err Exception
           (''Error preprocessing data: Missing encoders/scalers/features for task ''
            @ quote @ ''ranking'' @ quote))"
    using t2 b c by blast
  have r3: "preprocess_input_data demo_lib (demo_store 0.5 1 [])
         (demo_defaulted(''Latitude'' := None)) ''regression''
       = Inl (Err Exception (''Error preprocessing data: ''
            @ message (Err Exception (''Missing input features: ['' @ quote @ ''Latitude''
                                       @ quote @ '']''))))"
    using t3 d by blast
  have r4: "preprocess_input_data demo_lib (demo_store 0.5 1 [])
         (demo_defaulted(''Protected_Area_Status'' \<mapsto> PStr ''yes'')) ''regression''
       = Inl (Err Exception (''Error preprocessing data: ''
            @ message (Err TypeError ''cannot convert'')))"
    using t4 e by blast
  show ?thesis
    using a b c d e r1 r2 r3 r4 by simp
qed

end
